theory Spec2Isabelle
  imports Complex_Main "HOL-Library.AList"
begin

section \<open>JavaScript values used by the overlay controller\<close>

text \<open>
  A JavaScript number is a finite value, one of the two infinities, or NaN.  Finite values
  are taken as reals: rounding of finite results and the sign of zero are left out, the
  special values and their comparison and arithmetic rules are kept.
\<close>

datatype jsnum = Num real | PosInf | NegInf | NaN

fun js_le :: "jsnum \<Rightarrow> jsnum \<Rightarrow> bool" where
  "js_le NaN _ = False"
| "js_le _ NaN = False"
| "js_le (Num a) (Num b) = (a \<le> b)"
| "js_le NegInf _ = True"
| "js_le _ PosInf = True"
| "js_le PosInf _ = False"
| "js_le _ NegInf = False"

definition js_ge :: "jsnum \<Rightarrow> jsnum \<Rightarrow> bool" where
  "js_ge a b = js_le b a"

fun js_neg :: "jsnum \<Rightarrow> jsnum" where
  "js_neg (Num a) = Num (- a)"
| "js_neg PosInf = NegInf"
| "js_neg NegInf = PosInf"
| "js_neg NaN = NaN"

fun js_add :: "jsnum \<Rightarrow> jsnum \<Rightarrow> jsnum" where
  "js_add NaN _ = NaN"
| "js_add _ NaN = NaN"
| "js_add (Num a) (Num b) = Num (a + b)"
| "js_add PosInf NegInf = NaN"
| "js_add NegInf PosInf = NaN"
| "js_add PosInf _ = PosInf"
| "js_add NegInf _ = NegInf"
| "js_add _ PosInf = PosInf"
| "js_add _ NegInf = NegInf"

definition js_sub :: "jsnum \<Rightarrow> jsnum \<Rightarrow> jsnum" where
  "js_sub a b = js_add a (js_neg b)"

text \<open>Division as far as a finite, non-zero divisor goes (the source divides by the literal 2).\<close>

fun js_div :: "jsnum \<Rightarrow> jsnum \<Rightarrow> jsnum" where
  "js_div (Num a) (Num b) =
     (if b \<noteq> 0 then Num (a / b)
      else if a = 0 then NaN else if 0 < a then PosInf else NegInf)"
| "js_div PosInf (Num b) = (if 0 \<le> b then PosInf else NegInf)"
| "js_div NegInf (Num b) = (if 0 \<le> b then NegInf else PosInf)"
| "js_div (Num a) PosInf = Num 0"
| "js_div (Num a) NegInf = Num 0"
| "js_div _ _ = NaN"

text \<open>A value read from a loosely typed place (the stored sync offset).\<close>

datatype jsval = JNumber jsnum | JString string | JBoolean bool | JNull | JUndefined

fun as_number :: "jsval \<Rightarrow> jsnum" where
  "as_number (JNumber n) = n"
| "as_number _ = NaN"

text \<open>\<open>xs[i]\<close> on an array: an element for an integral index in range, \<open>undefined\<close> otherwise.\<close>

definition array_get :: "'a list \<Rightarrow> jsnum \<Rightarrow> 'a option" where
  "array_get xs i =
     (case i of
        Num r \<Rightarrow>
          (if 0 \<le> r \<and> r = of_int \<lfloor>r\<rfloor> \<and> nat \<lfloor>r\<rfloor> < length xs
           then Some (xs ! nat \<lfloor>r\<rfloor>) else None)
      | _ \<Rightarrow> None)"

section \<open>Data model\<close>

text \<open>
  Modelled from the spec: the types \<open>Subtitle\<close> and \<open>SubtitleSettings\<close> are declared in
  \<open>context/subtitles\<close> and \<open>context/settings\<close>, which are not among the sources.  A
  caption has \<open>start\<close>, \<open>end\<close> and \<open>text\<close>, as the controller reads them; the settings
  have the fields of the default record in \<open>loadSettings\<close>.  The sync offset comes from
  storage and is checked before use, so it is kept as a loosely typed value.
\<close>

record subtitle =
  sub_start :: jsnum
  sub_end :: jsnum
  sub_text :: string

record subtitle_settings =
  syncOffset :: jsval
  fontSize :: jsnum
  fontColor :: string
  background :: bool
  backgroundColor :: string
  fontFamily :: string
  offsetFromBottom :: jsnum
  textShadow :: bool
  shadowColor :: string
  verticalPadding :: jsnum
  horizontalPadding :: jsnum

text \<open>
  \<open>VideoTarget\<close>.  \<open>videoId\<close> is optional; \<open>videoIndex\<close> is compared with
  \<open>undefined\<close> by the code, so it is optional here too.
\<close>

record video_target =
  frameId :: jsnum
  documentId :: string
  videoIndex :: "jsnum option"
  videoId :: "string option"

text \<open>The part of \<open>DOMRect\<close> the controller reads.\<close>

record dom_rect =
  rect_left :: jsnum
  rect_bottom :: jsnum
  rect_width :: jsnum

text \<open>
  A video element of the page: its \<open>id\<close> attribute (empty when it has none), its playback
  time and the result of \<open>getBoundingClientRect()\<close>, \<open>None\<close> when the read throws.
\<close>

record video_elem =
  v_id :: string
  currentTime :: jsnum
  boundingRect :: "dom_rect option"

text \<open>
  Inline style as the list of its declarations.  A value is a literal, a pixel length
  \<open>${n}px\<close>, or a pair of pixel lengths.
\<close>

datatype css_value = Lit string | Px jsnum | Px2 jsnum jsnum

type_synonym css_style = "(string \<times> css_value) list"

text \<open>
  A created \<open>div\<close>: its identity, its \<open>id\<close> attribute, its inline style and its text
  (assigning \<open>null\<close> to \<open>textContent\<close> leaves the empty text).
\<close>

record div_elem =
  ident :: nat
  elem_id :: string
  style :: css_style
  textContent :: string

record shadow_root =
  sr_host :: nat
  sr_mode :: string
  sr_children :: "nat list"

datatype parent = DocBody | Elem nat

datatype callback = UpdateSubtitleContent | UpdateSubtitlePosition | HandleFullscreenChange

datatype event_target = OnElement nat | OnWindow | OnDocument | ResizeObserved nat

type_synonym listener = "event_target \<times> string \<times> callback"

text \<open>What \<open>chrome.storage.local.get\<close> does for the settings key.\<close>

datatype storage_read = ReadThrows | ReadAbsent | ReadFound subtitle_settings

text \<open>
  The ten fields of \<open>SubtitlesManager\<close>, followed by the page it runs in: the video
  objects by reference, the videos of the document in document order, the parent of each node
  the controller created (\<open>None\<close> while detached), the fullscreen element, the scroll position, the
  next fresh node identity, the registered listeners and the console.
\<close>

record state =
  subtitles :: "subtitle list"
  video :: "nat option"
  subtitleElement :: "div_elem option"
  shadowHost :: "div_elem option"
  shadowRoot :: "shadow_root option"
  resizeObserver :: "nat option"
  scrollHandler :: "callback option"
  fullscreenHandler :: "callback option"
  isFullscreen :: bool
  settings :: "subtitle_settings option"
  heap :: "nat \<Rightarrow> video_elem"
  doc_videos :: "nat list"
  parentNode :: "nat \<Rightarrow> parent option"
  fullscreenElement :: "nat option"
  scrollY :: jsnum
  fresh :: nat
  listeners :: "listener list"
  console :: "string list"

section \<open>DOM primitives\<close>

text \<open>\<open>document.createElement("div")\<close>: a new node, detached.\<close>

definition createElement :: "state \<Rightarrow> div_elem \<times> state" where
  "createElement s =
     (\<lparr>ident = fresh s, elem_id = [], style = [], textContent = []\<rparr>,
      s\<lparr>fresh := Suc (fresh s), parentNode := (parentNode s)(fresh s := None)\<rparr>)"

text \<open>\<open>node.remove()\<close>: the node leaves its parent, if it has one.\<close>

definition remove_node :: "nat \<Rightarrow> state \<Rightarrow> state" where
  "remove_node n s = s\<lparr>parentNode := (parentNode s)(n := None)\<rparr>"

text \<open>\<open>p.appendChild(node)\<close>: the node leaves its old parent and becomes a child of \<open>p\<close>.\<close>

definition appendChild :: "parent \<Rightarrow> nat \<Rightarrow> state \<Rightarrow> state" where
  "appendChild p n s = s\<lparr>parentNode := (parentNode s)(n \<mapsto> p)\<rparr>"

text \<open>The created nodes that hang in the document, in order of creation.\<close>

definition attached_nodes :: "state \<Rightarrow> nat list" where
  "attached_nodes s = filter (\<lambda>n. parentNode s n \<noteq> None) [0..<fresh s]"

definition set_prop :: "string \<Rightarrow> css_value \<Rightarrow> css_style \<Rightarrow> css_style" where
  "set_prop k v st = AList.update k v st"

definition get_prop :: "css_style \<Rightarrow> string \<Rightarrow> css_value option" where
  "get_prop st k = map_of st k"

section \<open>The controller\<close>

text \<open>
  Modelled from the spec: \<open>isValidTimeOffset\<close> lives in \<open>utils/isValidTimeOffset\<close>, which
  is not among the sources.  The specification describes it as the check that the offset
  is numeric and finite.
\<close>

fun isValidTimeOffset :: "jsval \<Rightarrow> bool" where
  "isValidTimeOffset (JNumber (Num r)) = True"
| "isValidTimeOffset _ = False"

definition default_settings :: subtitle_settings where
  "default_settings =
     \<lparr>syncOffset = JNumber (Num 0), fontSize = Num 20, fontColor = ''#ffffff'',
      background = False, backgroundColor = ''#000000'',
      fontFamily = ''Arial, sans-serif'', offsetFromBottom = Num 60,
      textShadow = True, shadowColor = ''#000000'',
      verticalPadding = Num 8, horizontalPadding = Num 8\<rparr>"

definition loadSettings :: "storage_read \<Rightarrow> state \<Rightarrow> state" where
  "loadSettings rd s =
     (case rd of
        ReadFound st \<Rightarrow> s\<lparr>settings := Some st\<rparr>
      | ReadAbsent \<Rightarrow> s\<lparr>settings := Some default_settings\<rparr>
      | ReadThrows \<Rightarrow> s\<lparr>console := console s @ [''Error loading subtitle settings:'']\<rparr>)"

text \<open>\<open>if (target.videoId)\<close>: a string is truthy when it is not empty.\<close>

definition findTargetVideo :: "video_target \<Rightarrow> state \<Rightarrow> nat option" where
  "findTargetVideo target s =
     (let videos = doc_videos s in
      case videoId target of
        Some vid \<Rightarrow>
          (if vid \<noteq> [] then find (\<lambda>v. v_id (heap s v) = vid) videos
           else (case videoIndex target of
                   Some i \<Rightarrow> array_get videos i
                 | None \<Rightarrow> array_get videos (Num 0)))
      | None \<Rightarrow>
          (case videoIndex target of
             Some i \<Rightarrow> array_get videos i
           | None \<Rightarrow> array_get videos (Num 0)))"

definition applyStyles :: "state \<Rightarrow> state" where
  "applyStyles s =
     (case (subtitleElement s, settings s) of
        (Some e, Some st) \<Rightarrow>
          (let textShadow_v =
                 (if textShadow st then ''2px 2px 4px '' @ shadowColor st else ''none'');
               backgroundColor_v =
                 (if background st then backgroundColor st else ''transparent'')
           in s\<lparr>subtitleElement := Some (e\<lparr>style :=
                [(''color'', Lit (fontColor st)),
                 (''font-size'', Px (fontSize st)),
                 (''font-family'', Lit (fontFamily st)),
                 (''padding'', Px2 (verticalPadding st) (horizontalPadding st)),
                 (''background-color'', Lit backgroundColor_v),
                 (''text-shadow'', Lit textShadow_v),
                 (''text-align'', Lit ''center''),
                 (''white-space'', Lit ''pre-line''),
                 (''font-weight'', Lit ''bold''),
                 (''line-height'', Lit ''1.4''),
                 (''word-wrap'', Lit ''break-word''),
                 (''max-width'', Lit ''90vw'')]\<rparr>)\<rparr>)
      | _ \<Rightarrow> s)"

definition appendSubtitleElement :: "state \<Rightarrow> state" where
  "appendSubtitleElement s =
     (case shadowHost s of
        None \<Rightarrow> s
      | Some h \<Rightarrow>
          (let s1 = s\<lparr>isFullscreen := (fullscreenElement s \<noteq> None)\<rparr> in
           if isFullscreen s1 then
             (case fullscreenElement s1 of
                Some fe \<Rightarrow> appendChild (Elem fe) (ident h) s1
              | None \<Rightarrow> appendChild DocBody (ident h) s1)
           else appendChild DocBody (ident h) s1))"

definition removeSubtitleElement :: "state \<Rightarrow> state" where
  "removeSubtitleElement s =
     (let s1 = (case shadowHost s of
                  Some h \<Rightarrow> (remove_node (ident h) s)\<lparr>shadowHost := None\<rparr>
                | None \<Rightarrow> s);
          s2 = (if shadowRoot s1 \<noteq> None then s1\<lparr>shadowRoot := None\<rparr> else s1)
      in if subtitleElement s2 \<noteq> None then s2\<lparr>subtitleElement := None\<rparr> else s2)"

definition updateSubtitlePosition :: "state \<Rightarrow> bool \<times> state" where
  "updateSubtitlePosition s =
     (case (shadowHost s, video s, settings s) of
        (Some h, Some v, Some st) \<Rightarrow>
          (case boundingRect (heap s v) of
             None \<Rightarrow>
               (False, s\<lparr>console := console s @ [''Error updating subtitle position:'']\<rparr>)
           | Some videoRect \<Rightarrow>
               (let subtitleTop =
                      js_add (js_sub (rect_bottom videoRect) (offsetFromBottom st)) (scrollY s);
                    subtitleLeft =
                      js_add (rect_left videoRect) (js_div (rect_width videoRect) (Num 2));
                    h1 = h\<lparr>style := set_prop ''top'' (Px subtitleTop) (style h)\<rparr>;
                    h2 = h1\<lparr>style := set_prop ''left'' (Px subtitleLeft) (style h1)\<rparr>
                in (True, s\<lparr>shadowHost := Some h2\<rparr>)))
      | _ \<Rightarrow> (False, s))"

text \<open>
  The playback time plus the sync offset, the offset counting only when it is valid.
  With no settings \<open>this.settings?.syncOffset\<close> is \<open>undefined\<close>.
\<close>

definition adjustedTime :: "state \<Rightarrow> nat \<Rightarrow> jsnum" where
  "adjustedTime s v =
     (let currentTime_v = currentTime (heap s v);
          offset = (case settings s of None \<Rightarrow> JUndefined | Some st \<Rightarrow> syncOffset st);
          timeOffset = (if isValidTimeOffset offset then as_number offset else Num 0)
      in js_add currentTime_v timeOffset)"

text \<open>
  Nothing inside the \<open>try\<close> block of \<open>updateSubtitleContent\<close> throws here: with no
  settings the offset is \<open>undefined\<close>, which the validity check rejects, so
  \<open>this.settings.syncOffset\<close> is only read when the settings exist.
\<close>

definition updateSubtitleContent :: "state \<Rightarrow> bool \<times> state" where
  "updateSubtitleContent s =
     (case (subtitleElement s, video s) of
        (Some e, Some v) \<Rightarrow>
          (let t = adjustedTime s v in
           case find (\<lambda>sub. js_le (sub_start sub) t \<and> js_ge (sub_end sub) t) (subtitles s) of
             None \<Rightarrow>
               (let e1 = e\<lparr>textContent := []\<rparr>;
                    e2 = e1\<lparr>style := set_prop ''display'' (Lit ''none'') (style e1)\<rparr>
                in (False, s\<lparr>subtitleElement := Some e2\<rparr>))
           | Some currentSubtitle \<Rightarrow>
               (let e1 = e\<lparr>style := set_prop ''display'' (Lit ''block'') (style e)\<rparr>;
                    e2 = e1\<lparr>textContent := sub_text currentSubtitle\<rparr>
                in (True, s\<lparr>subtitleElement := Some e2\<rparr>)))
      | _ \<Rightarrow> (False, s))"

definition addSubtitleElement :: "state \<Rightarrow> bool \<times> state" where
  "addSubtitleElement s =
     (if video s = None \<or> settings s = None then (False, s)
      else
        (let s1 = removeSubtitleElement s;
             (host, s2) = createElement s1;
             host1 = host\<lparr>elem_id := ''subtitle-shadow-host''\<rparr>;
             host2 = host1\<lparr>style :=
               [(''position'', Lit ''absolute''),
                (''z-index'', Lit ''2147483647''),
                (''transform'', Lit ''translateX(-50%) translateY(-100%)'')]\<rparr>;
             s3 = s2\<lparr>shadowHost := Some host2\<rparr>;
             s4 = s3\<lparr>shadowRoot :=
               Some \<lparr>sr_host = ident host2, sr_mode = ''open'', sr_children = []\<rparr>\<rparr>;
             (el, s5) = createElement s4;
             s6 = s5\<lparr>subtitleElement := Some (el\<lparr>elem_id := ''subtitle-element''\<rparr>)\<rparr>;
             s7 = applyStyles s6;
             s8 = snd (updateSubtitlePosition s7);
             s9 = snd (updateSubtitleContent s8);
             s10 = s9\<lparr>shadowRoot :=
               map_option (\<lambda>r. r\<lparr>sr_children := sr_children r @ [ident el]\<rparr>) (shadowRoot s9)\<rparr>
         in (True, appendSubtitleElement s10)))"

definition attachEventListeners :: "state \<Rightarrow> bool \<times> state" where
  "attachEventListeners s =
     (case video s of
        None \<Rightarrow> (False, s)
      | Some v \<Rightarrow>
          (True,
           s\<lparr>resizeObserver := Some v,
             scrollHandler := Some UpdateSubtitlePosition,
             fullscreenHandler := Some HandleFullscreenChange,
             listeners := listeners s @
               [(OnElement v, ''timeupdate'', UpdateSubtitleContent),
                (ResizeObserved v, ''resize'', UpdateSubtitlePosition),
                (OnWindow, ''resize'', UpdateSubtitlePosition),
                (OnWindow, ''scroll'', UpdateSubtitlePosition),
                (OnDocument, ''scroll'', UpdateSubtitlePosition),
                (OnDocument, ''fullscreenchange'', HandleFullscreenChange),
                (OnDocument, ''webkitfullscreenchange'', HandleFullscreenChange),
                (OnDocument, ''mozfullscreenchange'', HandleFullscreenChange),
                (OnDocument, ''MSFullscreenChange'', HandleFullscreenChange)]\<rparr>))"

text \<open>
  \<open>init\<close> awaits the settings read; the read's outcome is the parameter \<open>rd\<close> and the
  call is taken as one step.
\<close>

definition init :: "video_target \<Rightarrow> subtitle list \<Rightarrow> storage_read \<Rightarrow> state \<Rightarrow> bool \<times> state" where
  "init target subs rd s =
     (let s1 = s\<lparr>subtitles := subs\<rparr>;
          s2 = loadSettings rd s1;
          s3 = s2\<lparr>video := findTargetVideo target s2\<rparr>
      in if video s3 = None
         then (False, s3\<lparr>console := console s3 @ [''Target video not found'']\<rparr>)
         else
           (let s4 = snd (addSubtitleElement s3);
                s5 = snd (attachEventListeners s4)
            in (True, s5)))"

definition updateSettings :: "subtitle_settings \<Rightarrow> state \<Rightarrow> state" where
  "updateSettings st s =
     (let s1 = s\<lparr>settings := Some st\<rparr> in
      if subtitleElement s1 \<noteq> None
      then
        (let s2 = applyStyles s1;
             s3 = snd (updateSubtitlePosition s2)
         in snd (updateSubtitleContent s3))
      else s1)"


text \<open>The controller as the constructor leaves it, in a page that has appended nothing yet.\<close>

definition new_manager ::
  "(nat \<Rightarrow> video_elem) \<Rightarrow> nat list \<Rightarrow> nat option \<Rightarrow> jsnum \<Rightarrow> state" where
  "new_manager hp vids fs sy =
     \<lparr>subtitles = [], video = None, subtitleElement = None, shadowHost = None,
      shadowRoot = None, resizeObserver = None, scrollHandler = None,
      fullscreenHandler = None, isFullscreen = False, settings = None,
      heap = hp, doc_videos = vids, parentNode = (\<lambda>_. None), fullscreenElement = fs,
      scrollY = sy, fresh = 0, listeners = [], console = []\<rparr>"

section \<open>Notions of the specification\<close>

text \<open>A caption covers a time when \<open>start <= t <= end\<close>, with JavaScript's comparison.\<close>

definition covers :: "jsnum \<Rightarrow> subtitle \<Rightarrow> bool" where
  "covers t sub = (js_le (sub_start sub) t \<and> js_le t (sub_end sub))"

text \<open>Reading the content node: a declaration of its inline style, and its text.\<close>

definition content_prop :: "state \<Rightarrow> string \<Rightarrow> css_value option" where
  "content_prop s k = (case subtitleElement s of None \<Rightarrow> None | Some e \<Rightarrow> get_prop (style e) k)"

definition content_text :: "state \<Rightarrow> string option" where
  "content_text s = map_option textContent (subtitleElement s)"

text \<open>The state in which the settings are \<open>st\<close> with the sync offset replaced.\<close>

definition with_syncOffset :: "jsval \<Rightarrow> subtitle_settings \<Rightarrow> state \<Rightarrow> state" where
  "with_syncOffset off st s = s\<lparr>settings := Some (st\<lparr>syncOffset := off\<rparr>)\<rparr>"

text \<open>
  The container the mount node belongs in: the fullscreen element while there is one,
  the document body otherwise.
\<close>

definition target_container :: "state \<Rightarrow> parent" where
  "target_container s = (case fullscreenElement s of Some fe \<Rightarrow> Elem fe | None \<Rightarrow> DocBody)"

text \<open>
  The render surface is consistent: the mount node the controller holds is the one created
  node in the document, and a surface is only ever built from settings.
\<close>

definition surface_inv :: "state \<Rightarrow> bool" where
  "surface_inv s =
     (case shadowHost s of
        None \<Rightarrow> attached_nodes s = []
      | Some h \<Rightarrow> attached_nodes s = [ident h] \<and> settings s \<noteq> None)"

text \<open>
  The precedence rule read literally: a \<open>videoId\<close> that is present decides, whatever
  string it is.
\<close>

definition precedence_as_stated :: "video_target \<Rightarrow> state \<Rightarrow> nat option" where
  "precedence_as_stated target s =
     (case videoId target of
        Some vid \<Rightarrow> find (\<lambda>v. v_id (heap s v) = vid) (doc_videos s)
      | None \<Rightarrow>
          (case videoIndex target of
             Some i \<Rightarrow> array_get (doc_videos s) i
           | None \<Rightarrow> array_get (doc_videos s) (Num 0)))"

section \<open>Example pages\<close>

text \<open>
  Three videos, referred to as 10, 11 and 12, the second with id \<open>v2\<close>, playing at
  2 seconds.
\<close>

definition ex_heap :: "nat \<Rightarrow> video_elem" where
  "ex_heap r =
     \<lparr>v_id = (if r = 11 then ''v2'' else []), currentTime = Num 2,
      boundingRect = Some \<lparr>rect_left = Num 100, rect_bottom = Num 400, rect_width = Num 640\<rparr>\<rparr>"

definition ex_page :: state where
  "ex_page = new_manager ex_heap [10, 11, 12] None (Num 50)"

definition ex_subs :: "subtitle list" where
  "ex_subs =
     [\<lparr>sub_start = Num 0, sub_end = Num 2, sub_text = ''Hi''\<rparr>,
      \<lparr>sub_start = Num 2, sub_end = Num 4, sub_text = ''Bye''\<rparr>]"

definition ex_target :: video_target where
  "ex_target = \<lparr>frameId = Num 0, documentId = ''doc'', videoIndex = Some (Num 2), videoId = Some ''v2''\<rparr>"

text \<open>Two videos with ids \<open>a\<close> and none; a target whose \<open>videoId\<close> is the empty string.\<close>

definition cx_heap :: "nat \<Rightarrow> video_elem" where
  "cx_heap r =
     \<lparr>v_id = (if r = 10 then ''a'' else []), currentTime = Num 0, boundingRect = None\<rparr>"

definition cx_page :: state where
  "cx_page = new_manager cx_heap [10, 11] None (Num 0)"

definition cx_target :: video_target where
  "cx_target = \<lparr>frameId = Num 0, documentId = ''doc'', videoIndex = Some (Num 0), videoId = Some []\<rparr>"

text \<open>One video with id \<open>a\<close>.\<close>

definition cx_single_page :: state where
  "cx_single_page = new_manager cx_heap [10] None (Num 0)"

text \<open>The example page after a first \<open>init\<close> on the video \<open>v2\<close> with default settings.\<close>

definition ex_ready :: state where
  "ex_ready = snd (init ex_target ex_subs ReadAbsent ex_page)"

text \<open>The state of that \<open>init\<close> once the video is resolved.\<close>

definition ex_found :: state where
  "ex_found = (loadSettings ReadAbsent (ex_page\<lparr>subtitles := ex_subs\<rparr>))\<lparr>video := Some 11\<rparr>"



text \<open>The example with a sync offset of one and a half seconds.\<close>

definition ex_shifted :: state where
  "ex_shifted = with_syncOffset (JNumber (Num (3 / 2))) default_settings ex_ready"

definition ex_later_subs :: "subtitle list" where
  "ex_later_subs = [\<lparr>sub_start = Num 1, sub_end = Num 3, sub_text = ''Later''\<rparr>]"

definition ex_missing_target :: video_target where
  "ex_missing_target = ex_target\<lparr>videoId := Some ''zz''\<rparr>"

definition ex_custom_settings :: subtitle_settings where
  "ex_custom_settings =
     default_settings\<lparr>background := True, backgroundColor := ''#112233'', textShadow := False\<rparr>"

section \<open>Properties\<close>

subsection \<open>Content selection, position and style\<close>

lemma get_set_prop_same: "get_prop (set_prop k v st) k = Some v"
  by (simp add: get_prop_def set_prop_def update_conv')

lemma get_set_prop_other: "k' \<noteq> k \<Longrightarrow> get_prop (set_prop k v st) k' = get_prop st k'"
  by (simp add: get_prop_def set_prop_def update_conv')

lemma covers_code: "(js_le (sub_start c) t \<and> js_ge (sub_end c) t) = covers t c"
  by (simp add: covers_def js_ge_def)

lemma js_add_zero: "js_add x (Num 0) = x"
  by (cases x) simp_all

text \<open>
  Claim C1.  With a content node and a video, \<open>updateSubtitleContent\<close> works at the
  adjusted time.  That time is the playback time plus the sync offset of the settings when
  the offset is a finite number, and the playback time itself when the offset is rejected
  or there are no settings.  The first caption in list order that covers it is shown (its
  text is displayed, the node made visible, the result is true); when no caption covers it,
  the empty list included, the text is cleared, the node hidden and the result is false.
\<close>
theorem updateSubtitleContent_selects_first_cover:
  assumes "subtitleElement s = Some e" and "video s = Some v"
  shows "(\<forall>st r. settings s = Some st \<and> syncOffset st = JNumber (Num r) \<longrightarrow>
            adjustedTime s v = js_add (currentTime (heap s v)) (Num r))
       \<and> (\<forall>st r c. settings s = Some st \<and> syncOffset st = JNumber (Num r)
              \<and> currentTime (heap s v) = Num c \<longrightarrow> adjustedTime s v = Num (c + r))
       \<and> (\<forall>st. settings s = Some st \<and> \<not> isValidTimeOffset (syncOffset st) \<longrightarrow>
            adjustedTime s v = currentTime (heap s v))
       \<and> (settings s = None \<longrightarrow> adjustedTime s v = currentTime (heap s v))
       \<and> (\<forall>i. i < length (subtitles s) \<and> covers (adjustedTime s v) (subtitles s ! i)
              \<and> (\<forall>j<i. \<not> covers (adjustedTime s v) (subtitles s ! j)) \<longrightarrow>
            (\<exists>e'. updateSubtitleContent s = (True, s\<lparr>subtitleElement := Some e'\<rparr>)
                 \<and> textContent e' = sub_text (subtitles s ! i)
                 \<and> get_prop (style e') ''display'' = Some (Lit ''block'')
                 \<and> ident e' = ident e))
       \<and> ((\<forall>c \<in> set (subtitles s). \<not> covers (adjustedTime s v) c) \<longrightarrow>
            (\<exists>e'. updateSubtitleContent s = (False, s\<lparr>subtitleElement := Some e'\<rparr>)
                 \<and> textContent e' = []
                 \<and> get_prop (style e') ''display'' = Some (Lit ''none'')
                 \<and> ident e' = ident e))"
proof (intro conjI allI impI)
  fix st r
  assume "settings s = Some st \<and> syncOffset st = JNumber (Num r)"
  then show "adjustedTime s v = js_add (currentTime (heap s v)) (Num r)"
    by (simp add: adjustedTime_def)
next
  fix st r c
  assume "settings s = Some st \<and> syncOffset st = JNumber (Num r)
            \<and> currentTime (heap s v) = Num c"
  then show "adjustedTime s v = Num (c + r)"
    by (simp add: adjustedTime_def)
next
  fix st
  assume "settings s = Some st \<and> \<not> isValidTimeOffset (syncOffset st)"
  then show "adjustedTime s v = currentTime (heap s v)"
    by (simp add: adjustedTime_def js_add_zero)
next
  assume "settings s = None"
  then show "adjustedTime s v = currentTime (heap s v)"
    by (simp add: adjustedTime_def js_add_zero)
next
  fix i
  assume h: "i < length (subtitles s) \<and> covers (adjustedTime s v) (subtitles s ! i)
              \<and> (\<forall>j<i. \<not> covers (adjustedTime s v) (subtitles s ! j))"
  then have "find (covers (adjustedTime s v)) (subtitles s) = Some (subtitles s ! i)"
    by (auto simp: find_Some_iff)
  then show "\<exists>e'. updateSubtitleContent s = (True, s\<lparr>subtitleElement := Some e'\<rparr>)
                 \<and> textContent e' = sub_text (subtitles s ! i)
                 \<and> get_prop (style e') ''display'' = Some (Lit ''block'')
                 \<and> ident e' = ident e"
    using assms
    by (intro exI[of _ "e\<lparr>style := set_prop ''display'' (Lit ''block'') (style e),
                         textContent := sub_text (subtitles s ! i)\<rparr>"])
       (simp add: updateSubtitleContent_def covers_code get_set_prop_same)
next
  assume "\<forall>c \<in> set (subtitles s). \<not> covers (adjustedTime s v) c"
  then have "find (covers (adjustedTime s v)) (subtitles s) = None"
    by (simp add: find_None_iff)
  then show "\<exists>e'. updateSubtitleContent s = (False, s\<lparr>subtitleElement := Some e'\<rparr>)
                 \<and> textContent e' = []
                 \<and> get_prop (style e') ''display'' = Some (Lit ''none'')
                 \<and> ident e' = ident e"
    using assms
    by (intro exI[of _ "e\<lparr>textContent := [],
                         style := set_prop ''display'' (Lit ''none'') (style e)\<rparr>"])
       (simp add: updateSubtitleContent_def covers_code get_set_prop_same)
qed


lemma invalid_offset_adjustedTime:
  "\<not> isValidTimeOffset bad \<Longrightarrow>
   adjustedTime (s\<lparr>settings := Some (st\<lparr>syncOffset := bad\<rparr>)\<rparr>) v = currentTime (heap s v)"
  by (simp add: adjustedTime_def js_add_zero)

lemma zero_offset_adjustedTime:
  "adjustedTime (s\<lparr>settings := Some (st\<lparr>syncOffset := JNumber (Num 0)\<rparr>)\<rparr>) v = currentTime (heap s v)"
  by (simp add: adjustedTime_def js_add_zero)

lemma updateSubtitleContent_depends:
  assumes "adjustedTime s1 = adjustedTime s2" and "subtitles s1 = subtitles s2"
    and "subtitleElement s1 = subtitleElement s2" and "video s1 = video s2"
  shows "fst (updateSubtitleContent s1) = fst (updateSubtitleContent s2)
       \<and> subtitleElement (snd (updateSubtitleContent s1)) = subtitleElement (snd (updateSubtitleContent s2))"
  using assms
  by (simp add: updateSubtitleContent_def Let_def split: option.splits)

text \<open>
  Claim C5.  A sync offset that fails the validity check, NaN among them, counts as zero:
  the adjusted time is the playback time, as with offset 0, and \<open>updateSubtitleContent\<close>
  returns and displays the same.
\<close>
theorem invalid_syncOffset_counts_as_zero:
  "\<not> isValidTimeOffset (JNumber NaN)
   \<and> (\<forall>bad. \<not> isValidTimeOffset bad \<longrightarrow>
          adjustedTime (with_syncOffset bad st s) v
            = adjustedTime (with_syncOffset (JNumber (Num 0)) st s) v
        \<and> adjustedTime (with_syncOffset bad st s) v = currentTime (heap s v)
        \<and> fst (updateSubtitleContent (with_syncOffset bad st s))
            = fst (updateSubtitleContent (with_syncOffset (JNumber (Num 0)) st s))
        \<and> subtitleElement (snd (updateSubtitleContent (with_syncOffset bad st s)))
            = subtitleElement (snd (updateSubtitleContent (with_syncOffset (JNumber (Num 0)) st s))))"
proof -
  have "fst (updateSubtitleContent (with_syncOffset bad st s))
          = fst (updateSubtitleContent (with_syncOffset (JNumber (Num 0)) st s))
      \<and> subtitleElement (snd (updateSubtitleContent (with_syncOffset bad st s)))
          = subtitleElement (snd (updateSubtitleContent (with_syncOffset (JNumber (Num 0)) st s)))"
    if "\<not> isValidTimeOffset bad" for bad
  proof (rule updateSubtitleContent_depends)
    show "adjustedTime (with_syncOffset bad st s)
            = adjustedTime (with_syncOffset (JNumber (Num 0)) st s)"
      using that
      by (simp add: fun_eq_iff with_syncOffset_def invalid_offset_adjustedTime
                    zero_offset_adjustedTime)
  qed (simp_all add: with_syncOffset_def)
  then show ?thesis
    by (simp add: with_syncOffset_def invalid_offset_adjustedTime zero_offset_adjustedTime)
qed

text \<open>
  Claim C6.  With mount node, video and settings present, \<open>updateSubtitlePosition\<close> sets
  \<open>top\<close> to the box's bottom minus the bottom offset plus the vertical scroll and
  \<open>left\<close> to the box's left plus half its width; when reading the box throws it logs,
  returns false and leaves the mount node as it was.
\<close>
theorem updateSubtitlePosition_places_mount:
  assumes "shadowHost s = Some h" and "video s = Some v" and "settings s = Some st"
  shows "(\<forall>r. boundingRect (heap s v) = Some r \<longrightarrow>
            (\<exists>h'. updateSubtitlePosition s = (True, s\<lparr>shadowHost := Some h'\<rparr>)
                \<and> get_prop (style h') ''top''
                     = Some (Px (js_add (js_sub (rect_bottom r) (offsetFromBottom st)) (scrollY s)))
                \<and> get_prop (style h') ''left''
                     = Some (Px (js_add (rect_left r) (js_div (rect_width r) (Num 2))))))
       \<and> (boundingRect (heap s v) = None \<longrightarrow>
            updateSubtitlePosition s
              = (False, s\<lparr>console := console s @ [''Error updating subtitle position:'']\<rparr>)
            \<and> shadowHost (snd (updateSubtitlePosition s)) = Some h)"
proof (intro conjI allI impI)
  fix r
  assume r: "boundingRect (heap s v) = Some r"
  let ?top = "js_add (js_sub (rect_bottom r) (offsetFromBottom st)) (scrollY s)"
  let ?left = "js_add (rect_left r) (js_div (rect_width r) (Num 2))"
  show "\<exists>h'. updateSubtitlePosition s = (True, s\<lparr>shadowHost := Some h'\<rparr>)
                \<and> get_prop (style h') ''top'' = Some (Px ?top)
                \<and> get_prop (style h') ''left'' = Some (Px ?left)"
    using assms r
    by (intro exI[of _ "h\<lparr>style := set_prop ''left'' (Px ?left) (set_prop ''top'' (Px ?top) (style h))\<rparr>"])
       (simp add: updateSubtitlePosition_def get_set_prop_same get_set_prop_other)
next
  assume "boundingRect (heap s v) = None"
  then show "updateSubtitlePosition s
              = (False, s\<lparr>console := console s @ [''Error updating subtitle position:'']\<rparr>)"
    using assms by (simp add: updateSubtitlePosition_def)
next
  assume "boundingRect (heap s v) = None"
  then show "shadowHost (snd (updateSubtitlePosition s)) = Some h"
    using assms by (simp add: updateSubtitlePosition_def)
qed


lemma updateSubtitlePosition_frame:
  "subtitleElement (snd (updateSubtitlePosition s)) = subtitleElement s
   \<and> settings (snd (updateSubtitlePosition s)) = settings s
   \<and> video (snd (updateSubtitlePosition s)) = video s
   \<and> subtitles (snd (updateSubtitlePosition s)) = subtitles s
   \<and> parentNode (snd (updateSubtitlePosition s)) = parentNode s
   \<and> fresh (snd (updateSubtitlePosition s)) = fresh s
   \<and> listeners (snd (updateSubtitlePosition s)) = listeners s
   \<and> isFullscreen (snd (updateSubtitlePosition s)) = isFullscreen s
   \<and> fullscreenElement (snd (updateSubtitlePosition s)) = fullscreenElement s
   \<and> heap (snd (updateSubtitlePosition s)) = heap s
   \<and> doc_videos (snd (updateSubtitlePosition s)) = doc_videos s
   \<and> scrollY (snd (updateSubtitlePosition s)) = scrollY s
   \<and> shadowRoot (snd (updateSubtitlePosition s)) = shadowRoot s
   \<and> map_option ident (shadowHost (snd (updateSubtitlePosition s))) = map_option ident (shadowHost s)"
  by (simp add: updateSubtitlePosition_def Let_def split: option.splits)

lemma updateSubtitleContent_frame:
  "settings (snd (updateSubtitleContent s)) = settings s
   \<and> video (snd (updateSubtitleContent s)) = video s
   \<and> subtitles (snd (updateSubtitleContent s)) = subtitles s
   \<and> parentNode (snd (updateSubtitleContent s)) = parentNode s
   \<and> fresh (snd (updateSubtitleContent s)) = fresh s
   \<and> listeners (snd (updateSubtitleContent s)) = listeners s
   \<and> isFullscreen (snd (updateSubtitleContent s)) = isFullscreen s
   \<and> fullscreenElement (snd (updateSubtitleContent s)) = fullscreenElement s
   \<and> heap (snd (updateSubtitleContent s)) = heap s
   \<and> doc_videos (snd (updateSubtitleContent s)) = doc_videos s
   \<and> scrollY (snd (updateSubtitleContent s)) = scrollY s
   \<and> shadowRoot (snd (updateSubtitleContent s)) = shadowRoot s
   \<and> shadowHost (snd (updateSubtitleContent s)) = shadowHost s
   \<and> map_option ident (subtitleElement (snd (updateSubtitleContent s))) = map_option ident (subtitleElement s)"
  by (simp add: updateSubtitleContent_def Let_def split: option.splits)

lemma updateSubtitleContent_keeps_prop:
  "k \<noteq> ''display'' \<Longrightarrow> content_prop (snd (updateSubtitleContent s)) k = content_prop s k"
  by (simp add: updateSubtitleContent_def content_prop_def Let_def get_set_prop_other
           split: option.splits)

lemma applyStyles_frame:
  "settings (applyStyles s) = settings s \<and> video (applyStyles s) = video s
   \<and> subtitles (applyStyles s) = subtitles s \<and> parentNode (applyStyles s) = parentNode s
   \<and> fresh (applyStyles s) = fresh s \<and> listeners (applyStyles s) = listeners s
   \<and> isFullscreen (applyStyles s) = isFullscreen s
   \<and> fullscreenElement (applyStyles s) = fullscreenElement s
   \<and> heap (applyStyles s) = heap s \<and> shadowRoot (applyStyles s) = shadowRoot s
   \<and> doc_videos (applyStyles s) = doc_videos s \<and> scrollY (applyStyles s) = scrollY s
   \<and> shadowHost (applyStyles s) = shadowHost s
   \<and> map_option ident (subtitleElement (applyStyles s)) = map_option ident (subtitleElement s)"
  by (simp add: applyStyles_def Let_def split: option.splits)

lemma applyStyles_background:
  "subtitleElement s = Some e \<Longrightarrow> settings s = Some st \<Longrightarrow>
   content_prop (applyStyles s) ''background-color''
     = Some (Lit (if background st then backgroundColor st else ''transparent''))"
  by (simp add: applyStyles_def content_prop_def get_prop_def)

lemma applyStyles_shadow:
  "subtitleElement s = Some e \<Longrightarrow> settings s = Some st \<Longrightarrow>
   content_prop (applyStyles s) ''text-shadow''
     = Some (Lit (if textShadow st then ''2px 2px 4px '' @ shadowColor st else ''none''))"
  by (simp add: applyStyles_def content_prop_def get_prop_def)

lemma applyStyles_pure:
  "subtitleElement s = Some e \<Longrightarrow> settings s = Some st \<Longrightarrow>
   subtitleElement s2 = Some e2 \<Longrightarrow> settings s2 = Some st \<Longrightarrow>
   map_option style (subtitleElement (applyStyles s2)) = map_option style (subtitleElement (applyStyles s))"
  by (simp add: applyStyles_def)

lemma updateSettings_prop:
  assumes "subtitleElement s = Some e" and "k \<noteq> ''display''"
  shows "content_prop (updateSettings st s) k = content_prop (applyStyles (s\<lparr>settings := Some st\<rparr>)) k"
proof -
  have "content_prop (updateSettings st s) k
          = content_prop (snd (updateSubtitlePosition (applyStyles (s\<lparr>settings := Some st\<rparr>)))) k"
    using assms by (simp add: updateSettings_def Let_def updateSubtitleContent_keeps_prop)
  also have "\<dots> = content_prop (applyStyles (s\<lparr>settings := Some st\<rparr>)) k"
    by (simp add: content_prop_def updateSubtitlePosition_frame)
  finally show ?thesis .
qed

text \<open>
  Claim C8.  The style depends on the settings alone: the background is the configured
  colour when the toggle is on and transparent otherwise, the text shadow is
  \<open>2px 2px 4px\<close> in the shadow colour when enabled and none otherwise; the same holds
  after \<open>updateSettings\<close>.
\<close>
theorem applyStyles_derives_presentation:
  assumes "subtitleElement s = Some e"
  shows "(\<forall>st. settings s = Some st \<longrightarrow>
            content_prop (applyStyles s) ''background-color''
              = Some (Lit (if background st then backgroundColor st else ''transparent''))
          \<and> content_prop (applyStyles s) ''text-shadow''
              = Some (Lit (if textShadow st then ''2px 2px 4px '' @ shadowColor st else ''none''))
          \<and> (\<forall>s2 e2. subtitleElement s2 = Some e2 \<and> settings s2 = Some st \<longrightarrow>
                map_option style (subtitleElement (applyStyles s2))
                  = map_option style (subtitleElement (applyStyles s))))
       \<and> (\<forall>st. content_prop (updateSettings st s) ''background-color''
              = Some (Lit (if background st then backgroundColor st else ''transparent''))
          \<and> content_prop (updateSettings st s) ''text-shadow''
              = Some (Lit (if textShadow st then ''2px 2px 4px '' @ shadowColor st else ''none'')))"
proof (intro conjI allI impI)
  fix st assume st: "settings s = Some st"
  show "content_prop (applyStyles s) ''background-color''
              = Some (Lit (if background st then backgroundColor st else ''transparent''))"
    using assms st by (rule applyStyles_background)
  show "content_prop (applyStyles s) ''text-shadow''
              = Some (Lit (if textShadow st then ''2px 2px 4px '' @ shadowColor st else ''none''))"
    using assms st by (rule applyStyles_shadow)
  fix s2 :: state and e2 :: div_elem assume "subtitleElement s2 = Some e2 \<and> settings s2 = Some st"
  then show "map_option style (subtitleElement (applyStyles s2))
                  = map_option style (subtitleElement (applyStyles s))"
    using assms st applyStyles_pure by blast
next
  fix st
  have e: "subtitleElement (s\<lparr>settings := Some st\<rparr>) = Some e" using assms by simp
  have t: "settings (s\<lparr>settings := Some st\<rparr>) = Some st" by simp
  show "content_prop (updateSettings st s) ''background-color''
              = Some (Lit (if background st then backgroundColor st else ''transparent''))"
    using applyStyles_background[OF e t] assms by (simp add: updateSettings_prop)
  show "content_prop (updateSettings st s) ''text-shadow''
              = Some (Lit (if textShadow st then ''2px 2px 4px '' @ shadowColor st else ''none''))"
    using applyStyles_shadow[OF e t] assms by (simp add: updateSettings_prop)
qed


subsection \<open>Initialisation\<close>

lemma loadSettings_frame:
  "subtitles (loadSettings rd s) = subtitles s \<and> video (loadSettings rd s) = video s
   \<and> subtitleElement (loadSettings rd s) = subtitleElement s
   \<and> shadowHost (loadSettings rd s) = shadowHost s
   \<and> shadowRoot (loadSettings rd s) = shadowRoot s
   \<and> resizeObserver (loadSettings rd s) = resizeObserver s
   \<and> scrollHandler (loadSettings rd s) = scrollHandler s
   \<and> fullscreenHandler (loadSettings rd s) = fullscreenHandler s
   \<and> isFullscreen (loadSettings rd s) = isFullscreen s
   \<and> heap (loadSettings rd s) = heap s \<and> doc_videos (loadSettings rd s) = doc_videos s
   \<and> parentNode (loadSettings rd s) = parentNode s
   \<and> fullscreenElement (loadSettings rd s) = fullscreenElement s
   \<and> scrollY (loadSettings rd s) = scrollY s \<and> fresh (loadSettings rd s) = fresh s
   \<and> listeners (loadSettings rd s) = listeners s"
  by (simp add: loadSettings_def split: storage_read.splits)

lemma findTargetVideo_cong:
  "heap s' = heap s \<Longrightarrow> doc_videos s' = doc_videos s \<Longrightarrow>
   findTargetVideo target s' = findTargetVideo target s"
  by (simp add: findTargetVideo_def Let_def split: option.splits)

lemma findTargetVideo_in_init:
  "findTargetVideo target (loadSettings rd (s\<lparr>subtitles := subs\<rparr>)) = findTargetVideo target s"
  by (rule findTargetVideo_cong) (simp_all add: loadSettings_frame)

lemma init_not_found:
  assumes "findTargetVideo target s = None"
  shows "init target subs rd s
           = (False, (loadSettings rd (s\<lparr>subtitles := subs\<rparr>))
                \<lparr>video := None,
                 console := console (loadSettings rd (s\<lparr>subtitles := subs\<rparr>))
                              @ [''Target video not found'']\<rparr>)"
  using assms by (simp add: init_def Let_def findTargetVideo_in_init)

text \<open>
  Claim C3.  When no video matches the target, \<open>init\<close> logs the failure and returns
  false; the render surface, the document and the listeners stay as they were.
\<close>
theorem init_without_video_builds_nothing:
  assumes "findTargetVideo target s = None"
  shows "fst (init target subs rd s) = False
       \<and> last (console (snd (init target subs rd s))) = ''Target video not found''
       \<and> shadowHost (snd (init target subs rd s)) = shadowHost s
       \<and> shadowRoot (snd (init target subs rd s)) = shadowRoot s
       \<and> subtitleElement (snd (init target subs rd s)) = subtitleElement s
       \<and> parentNode (snd (init target subs rd s)) = parentNode s
       \<and> fresh (snd (init target subs rd s)) = fresh s
       \<and> listeners (snd (init target subs rd s)) = listeners s
       \<and> resizeObserver (snd (init target subs rd s)) = resizeObserver s
       \<and> scrollHandler (snd (init target subs rd s)) = scrollHandler s
       \<and> fullscreenHandler (snd (init target subs rd s)) = fullscreenHandler s"
  by (simp add: init_not_found[OF assms] loadSettings_frame)

lemma no_settings_no_ops:
  "settings s = None \<Longrightarrow>
   addSubtitleElement s = (False, s) \<and> applyStyles s = s \<and> updateSubtitlePosition s = (False, s)"
  by (simp add: addSubtitleElement_def applyStyles_def updateSubtitlePosition_def
           split: option.splits)

lemma attachEventListeners_frame:
  "settings (snd (attachEventListeners s)) = settings s
   \<and> shadowHost (snd (attachEventListeners s)) = shadowHost s
   \<and> shadowRoot (snd (attachEventListeners s)) = shadowRoot s
   \<and> subtitleElement (snd (attachEventListeners s)) = subtitleElement s
   \<and> parentNode (snd (attachEventListeners s)) = parentNode s
   \<and> fresh (snd (attachEventListeners s)) = fresh s
   \<and> video (snd (attachEventListeners s)) = video s
   \<and> subtitles (snd (attachEventListeners s)) = subtitles s
   \<and> heap (snd (attachEventListeners s)) = heap s
   \<and> doc_videos (snd (attachEventListeners s)) = doc_videos s
   \<and> scrollY (snd (attachEventListeners s)) = scrollY s
   \<and> listeners (snd (attachEventListeners s))
       = (case video s of
            None \<Rightarrow> listeners s
          | Some v \<Rightarrow> listeners s @
              [(OnElement v, ''timeupdate'', UpdateSubtitleContent),
               (ResizeObserved v, ''resize'', UpdateSubtitlePosition),
               (OnWindow, ''resize'', UpdateSubtitlePosition),
               (OnWindow, ''scroll'', UpdateSubtitlePosition),
               (OnDocument, ''scroll'', UpdateSubtitlePosition),
               (OnDocument, ''fullscreenchange'', HandleFullscreenChange),
               (OnDocument, ''webkitfullscreenchange'', HandleFullscreenChange),
               (OnDocument, ''mozfullscreenchange'', HandleFullscreenChange),
               (OnDocument, ''MSFullscreenChange'', HandleFullscreenChange)])
   \<and> fullscreenElement (snd (attachEventListeners s)) = fullscreenElement s
   \<and> isFullscreen (snd (attachEventListeners s)) = isFullscreen s"
  by (simp add: attachEventListeners_def split: option.splits)

lemma updateSettings_settings: "settings (updateSettings st s) = Some st"
  by (simp add: updateSettings_def Let_def updateSubtitleContent_frame
                updateSubtitlePosition_frame applyStyles_frame)

lemma init_failed_load:
  assumes "settings s = None"
  shows "init target subs ReadThrows s =
           (let s2 = s\<lparr>subtitles := subs,
                       console := console s @ [''Error loading subtitle settings:'']\<rparr>
            in case findTargetVideo target s of
                 None \<Rightarrow> (False, s2\<lparr>video := None,
                                   console := console s2 @ [''Target video not found'']\<rparr>)
               | Some v \<Rightarrow> (True, snd (attachEventListeners (s2\<lparr>video := Some v\<rparr>))))"
proof -
  have l: "loadSettings ReadThrows (s\<lparr>subtitles := subs\<rparr>)
             = s\<lparr>subtitles := subs, console := console s @ [''Error loading subtitle settings:'']\<rparr>"
    by (simp add: loadSettings_def)
  have f: "findTargetVideo target
             (s\<lparr>subtitles := subs, console := console s @ [''Error loading subtitle settings:'']\<rparr>)
           = findTargetVideo target s"
    by (rule findTargetVideo_cong) simp_all
  show ?thesis
    using assms
    by (simp add: init_def Let_def l f no_settings_no_ops split: option.splits)
qed

text \<open>
  Claim C9.  A settings read that throws is logged and leaves the settings as they were;
  \<open>init\<close> goes on to resolve the video.  While the settings are unset, building the
  surface, applying styles and updating the position do nothing; \<open>updateSettings\<close>
  sets them.
\<close>
theorem settings_load_failure_leaves_no_ops:
  "settings (loadSettings ReadThrows s) = settings s
   \<and> console (loadSettings ReadThrows s) = console s @ [''Error loading subtitle settings:'']
   \<and> (settings s = None \<longrightarrow>
        fst (init target subs ReadThrows s) = (findTargetVideo target s \<noteq> None)
      \<and> settings (snd (init target subs ReadThrows s)) = None
      \<and> shadowHost (snd (init target subs ReadThrows s)) = shadowHost s
      \<and> subtitleElement (snd (init target subs ReadThrows s)) = subtitleElement s
      \<and> parentNode (snd (init target subs ReadThrows s)) = parentNode s
      \<and> video (snd (init target subs ReadThrows s)) = findTargetVideo target s
      \<and> length (listeners (snd (init target subs ReadThrows s)))
          = (if findTargetVideo target s = None then length (listeners s)
             else length (listeners s) + 9)
      \<and> addSubtitleElement s = (False, s)
      \<and> applyStyles s = s
      \<and> updateSubtitlePosition s = (False, s))
   \<and> settings (updateSettings st s) = Some st"
proof (intro conjI impI)
  show "settings (loadSettings ReadThrows s) = settings s"
    by (simp add: loadSettings_def)
  show "console (loadSettings ReadThrows s) = console s @ [''Error loading subtitle settings:'']"
    by (simp add: loadSettings_def)
  show "settings (updateSettings st s) = Some st"
    by (rule updateSettings_settings)
next
  assume n: "settings s = None"
  note i = init_failed_load[OF n, of target subs]
  show "fst (init target subs ReadThrows s) = (findTargetVideo target s \<noteq> None)"
    by (simp add: i Let_def split: option.splits)
  show "settings (snd (init target subs ReadThrows s)) = None"
    using n by (simp add: i Let_def attachEventListeners_frame split: option.splits)
  show "shadowHost (snd (init target subs ReadThrows s)) = shadowHost s"
    by (simp add: i Let_def attachEventListeners_frame split: option.splits)
  show "subtitleElement (snd (init target subs ReadThrows s)) = subtitleElement s"
    by (simp add: i Let_def attachEventListeners_frame split: option.splits)
  show "parentNode (snd (init target subs ReadThrows s)) = parentNode s"
    by (simp add: i Let_def attachEventListeners_frame split: option.splits)
  show "video (snd (init target subs ReadThrows s)) = findTargetVideo target s"
    by (simp add: i Let_def attachEventListeners_frame split: option.splits)
  show "length (listeners (snd (init target subs ReadThrows s)))
          = (if findTargetVideo target s = None then length (listeners s)
             else length (listeners s) + 9)"
    by (simp add: i Let_def attachEventListeners_frame split: option.splits)
  show "addSubtitleElement s = (False, s)" using n by (simp add: no_settings_no_ops)
  show "applyStyles s = s" using n by (simp add: no_settings_no_ops)
  show "updateSubtitlePosition s = (False, s)" using n by (simp add: no_settings_no_ops)
qed

subsection \<open>The render surface and the attached nodes\<close>

lemma distinct_singleton_set: "distinct xs \<Longrightarrow> set xs = {x} \<Longrightarrow> xs = [x]"
proof (cases xs)
  case Nil
  assume "set xs = {x}"
  with Nil show ?thesis by simp
next
  case (Cons a as)
  assume d: "distinct xs" and e: "set xs = {x}"
  from e Cons have a: "a = x" by auto
  have "as = []"
  proof (rule ccontr)
    assume "as \<noteq> []"
    then obtain y where y: "y \<in> set as" by (cases as) auto
    with e Cons have "y = x" by auto
    with y d Cons a show False by simp
  qed
  with Cons a show ?thesis by simp
qed

lemma attached_nodes_empty_iff:
  "attached_nodes s = [] \<longleftrightarrow> (\<forall>k<fresh s. parentNode s k = None)"
  by (auto simp: attached_nodes_def filter_empty_conv)

lemma attached_nodes_single_iff:
  "attached_nodes s = [n] \<longleftrightarrow>
     n < fresh s \<and> parentNode s n \<noteq> None \<and> (\<forall>k<fresh s. k \<noteq> n \<longrightarrow> parentNode s k = None)"
proof
  assume a: "attached_nodes s = [n]"
  have "set (attached_nodes s) = {k. k < fresh s \<and> parentNode s k \<noteq> None}"
    by (auto simp: attached_nodes_def)
  with a have "{k. k < fresh s \<and> parentNode s k \<noteq> None} = {n}" by simp
  then show "n < fresh s \<and> parentNode s n \<noteq> None \<and> (\<forall>k<fresh s. k \<noteq> n \<longrightarrow> parentNode s k = None)"
    by blast
next
  assume b: "n < fresh s \<and> parentNode s n \<noteq> None \<and> (\<forall>k<fresh s. k \<noteq> n \<longrightarrow> parentNode s k = None)"
  have d: "distinct (attached_nodes s)" by (simp add: attached_nodes_def)
  have "set (attached_nodes s) = {k. k < fresh s \<and> parentNode s k \<noteq> None}"
    by (auto simp: attached_nodes_def)
  also have "\<dots> = {n}" using b by auto
  finally show "attached_nodes s = [n]" using d by (rule distinct_singleton_set[rotated])
qed

lemma removeSubtitleElement_fields:
  "shadowHost (removeSubtitleElement s) = None
   \<and> shadowRoot (removeSubtitleElement s) = None
   \<and> subtitleElement (removeSubtitleElement s) = None
   \<and> fresh (removeSubtitleElement s) = fresh s
   \<and> settings (removeSubtitleElement s) = settings s
   \<and> video (removeSubtitleElement s) = video s
   \<and> subtitles (removeSubtitleElement s) = subtitles s
   \<and> heap (removeSubtitleElement s) = heap s
   \<and> doc_videos (removeSubtitleElement s) = doc_videos s
   \<and> fullscreenElement (removeSubtitleElement s) = fullscreenElement s
   \<and> scrollY (removeSubtitleElement s) = scrollY s
   \<and> parentNode (removeSubtitleElement s)
       = (case shadowHost s of Some h \<Rightarrow> (parentNode s)(ident h := None) | None \<Rightarrow> parentNode s)"
  by (simp add: removeSubtitleElement_def remove_node_def Let_def split: option.splits)

lemma removeSubtitleElement_detaches:
  assumes "surface_inv s"
  shows "attached_nodes (removeSubtitleElement s) = []"
proof (cases "shadowHost s")
  case None
  with assms show ?thesis
    by (simp add: surface_inv_def attached_nodes_empty_iff removeSubtitleElement_fields)
next
  case (Some h)
  with assms have "attached_nodes s = [ident h]" by (simp add: surface_inv_def)
  then show ?thesis using Some
    by (simp add: attached_nodes_single_iff attached_nodes_empty_iff removeSubtitleElement_fields)
qed

lemma appendSubtitleElement_fields:
  assumes "shadowHost s = Some h"
  shows "appendSubtitleElement s
           = s\<lparr>isFullscreen := (fullscreenElement s \<noteq> None),
               parentNode := (parentNode s)(ident h \<mapsto> target_container s)\<rparr>"
  using assms
  by (auto simp: appendSubtitleElement_def appendChild_def target_container_def Let_def)


lemma updateSubtitleContent_text:
  assumes "subtitleElement s = Some e" and "video s = Some v"
  shows "content_text (snd (updateSubtitleContent s))
           = Some (case find (covers (adjustedTime s v)) (subtitles s) of
                     Some c \<Rightarrow> sub_text c | None \<Rightarrow> [])"
  using assms
  by (simp add: updateSubtitleContent_def content_text_def covers_code Let_def
           split: option.splits)

lemma adjustedTime_cong:
  "heap s' = heap s \<Longrightarrow> settings s' = settings s \<Longrightarrow> adjustedTime s' v = adjustedTime s v"
  by (simp add: adjustedTime_def)

lemma appendSubtitleElement_frame:
  "parentNode (appendSubtitleElement s)
     = (case map_option ident (shadowHost s) of
          None \<Rightarrow> parentNode s
        | Some n \<Rightarrow> (parentNode s)(n \<mapsto> target_container s))
   \<and> isFullscreen (appendSubtitleElement s)
       = (case map_option ident (shadowHost s) of
            None \<Rightarrow> isFullscreen s
          | Some n \<Rightarrow> fullscreenElement s \<noteq> None)
   \<and> shadowHost (appendSubtitleElement s) = shadowHost s
   \<and> shadowRoot (appendSubtitleElement s) = shadowRoot s
   \<and> subtitleElement (appendSubtitleElement s) = subtitleElement s
   \<and> settings (appendSubtitleElement s) = settings s
   \<and> video (appendSubtitleElement s) = video s
   \<and> subtitles (appendSubtitleElement s) = subtitles s
   \<and> heap (appendSubtitleElement s) = heap s
   \<and> doc_videos (appendSubtitleElement s) = doc_videos s
   \<and> scrollY (appendSubtitleElement s) = scrollY s
   \<and> fresh (appendSubtitleElement s) = fresh s
   \<and> fullscreenElement (appendSubtitleElement s) = fullscreenElement s
   \<and> listeners (appendSubtitleElement s) = listeners s"
  by (simp add: appendSubtitleElement_def appendChild_def target_container_def Let_def
           split: option.splits)

lemma addSubtitleElement_guard:
  "video s = Some v \<Longrightarrow> settings s = Some st \<Longrightarrow> fst (addSubtitleElement s) = True"
  by (simp add: addSubtitleElement_def Let_def split: prod.splits)

lemmas add_unfold =
  addSubtitleElement_def createElement_def Let_def removeSubtitleElement_fields
  updateSubtitleContent_frame updateSubtitlePosition_frame applyStyles_frame
  appendSubtitleElement_frame

lemma addSubtitleElement_nodes:
  assumes "video s = Some v" and "settings s = Some st"
  shows "map_option ident (shadowHost (snd (addSubtitleElement s))) = Some (fresh s)"
    and "map_option ident (subtitleElement (snd (addSubtitleElement s))) = Some (Suc (fresh s))"
    and "shadowRoot (snd (addSubtitleElement s))
           = Some \<lparr>sr_host = fresh s, sr_mode = ''open'', sr_children = [Suc (fresh s)]\<rparr>"
    and "fresh (snd (addSubtitleElement s)) = Suc (Suc (fresh s))"
  using assms by (simp_all add: add_unfold)

lemma addSubtitleElement_keeps:
  assumes "video s = Some v" and "settings s = Some st"
  shows "settings (snd (addSubtitleElement s)) = settings s"
    and "video (snd (addSubtitleElement s)) = video s"
    and "subtitles (snd (addSubtitleElement s)) = subtitles s"
    and "heap (snd (addSubtitleElement s)) = heap s"
    and "doc_videos (snd (addSubtitleElement s)) = doc_videos s"
    and "scrollY (snd (addSubtitleElement s)) = scrollY s"
    and "fullscreenElement (snd (addSubtitleElement s)) = fullscreenElement s"
    and "isFullscreen (snd (addSubtitleElement s)) = (fullscreenElement s \<noteq> None)"
  using assms by (simp_all add: add_unfold)

lemma addSubtitleElement_parents:
  assumes "video s = Some v" and "settings s = Some st"
  shows "parentNode (snd (addSubtitleElement s)) n
           = (if n = fresh s then Some (target_container s)
              else if n = Suc (fresh s) then None
              else if map_option ident (shadowHost s) = Some n then None
              else parentNode s n)"
  using assms by (simp add: add_unfold target_container_def split: option.splits)


lemma addSubtitleElement_text:
  assumes "video s = Some v" and "settings s = Some st"
  shows "content_text (snd (addSubtitleElement s))
           = Some (case find (covers (adjustedTime s v)) (subtitles s) of
                     Some c \<Rightarrow> sub_text c | None \<Rightarrow> [])"
proof -
  define s6 where "s6 = snd (updateSubtitlePosition (applyStyles
     ((snd (createElement ((snd (createElement (removeSubtitleElement s)))
        \<lparr>shadowHost := Some ((fst (createElement (removeSubtitleElement s)))
            \<lparr>elem_id := ''subtitle-shadow-host'',
             style := [(''position'', Lit ''absolute''),
                       (''z-index'', Lit ''2147483647''),
                       (''transform'', Lit ''translateX(-50%) translateY(-100%)'')]\<rparr>),
          shadowRoot := Some \<lparr>sr_host = fresh s, sr_mode = ''open'', sr_children = []\<rparr>\<rparr>)))
       \<lparr>subtitleElement := Some \<lparr>ident = Suc (fresh s), elem_id = ''subtitle-element'',
                                   style = [], textContent = []\<rparr>\<rparr>)))"
  have a: "content_text (snd (addSubtitleElement s)) = content_text (snd (updateSubtitleContent s6))"
    using assms
    by (simp add: s6_def content_text_def add_unfold)
  have e: "\<exists>e. subtitleElement s6 = Some e"
    by (simp add: s6_def add_unfold createElement_def applyStyles_def split: option.splits)
  have v: "video s6 = Some v" using assms by (simp add: s6_def add_unfold)
  have t: "adjustedTime s6 v = adjustedTime s v"
    by (rule adjustedTime_cong) (simp_all add: s6_def add_unfold)
  have u: "subtitles s6 = subtitles s" by (simp add: s6_def add_unfold)
  from e obtain e where "subtitleElement s6 = Some e" ..
  from updateSubtitleContent_text[OF this v] a t u show ?thesis by simp
qed


lemma surface_inv_host_bound:
  "surface_inv s \<Longrightarrow> shadowHost s = Some h \<Longrightarrow> ident h < fresh s"
  by (simp add: surface_inv_def attached_nodes_single_iff)

lemma surface_inv_others_detached:
  "surface_inv s \<Longrightarrow> k < fresh s \<Longrightarrow> map_option ident (shadowHost s) \<noteq> Some k \<Longrightarrow>
   parentNode s k = None"
  by (cases "shadowHost s")
     (auto simp: surface_inv_def attached_nodes_single_iff attached_nodes_empty_iff)

lemma addSubtitleElement_attached:
  assumes "surface_inv s" and "video s = Some v" and "settings s = Some st"
  shows "attached_nodes (snd (addSubtitleElement s)) = [fresh s]"
  unfolding attached_nodes_single_iff
proof (intro conjI allI impI)
  show "fresh s < fresh (snd (addSubtitleElement s))"
    using assms by (simp add: addSubtitleElement_nodes)
  show "parentNode (snd (addSubtitleElement s)) (fresh s) \<noteq> None"
    using assms by (simp add: addSubtitleElement_parents)
next
  fix k
  assume k: "k < fresh (snd (addSubtitleElement s))" and n: "k \<noteq> fresh s"
  then have "k = Suc (fresh s) \<or> k < fresh s"
    using assms by (auto simp: addSubtitleElement_nodes)
  then show "parentNode (snd (addSubtitleElement s)) k = None"
    using assms n surface_inv_others_detached[of s k]
    by (auto simp: addSubtitleElement_parents)
qed

lemma addSubtitleElement_inv:
  assumes "surface_inv s"
  shows "surface_inv (snd (addSubtitleElement s))"
proof (cases "video s = None \<or> settings s = None")
  case True
  then show ?thesis using assms by (simp add: addSubtitleElement_def)
next
  case False
  then obtain v st where vs: "video s = Some v" "settings s = Some st" by auto
  from addSubtitleElement_nodes(1)[OF vs]
  obtain h where h: "shadowHost (snd (addSubtitleElement s)) = Some h" "ident h = fresh s"
    by auto
  show ?thesis
    using h addSubtitleElement_attached[OF assms vs] addSubtitleElement_keeps(1)[OF vs] vs
    by (simp add: surface_inv_def)
qed

lemma surface_inv_cong:
  assumes "surface_inv s" and "map_option ident (shadowHost s') = map_option ident (shadowHost s)"
    and "parentNode s' = parentNode s" and "fresh s' = fresh s"
    and "settings s \<noteq> None \<longrightarrow> settings s' \<noteq> None"
  shows "surface_inv s'"
proof -
  have a: "attached_nodes s' = attached_nodes s"
    using assms by (simp add: attached_nodes_def)
  show ?thesis
  proof (cases "shadowHost s")
    case None
    with assms have "shadowHost s' = None" by simp
    with None assms a show ?thesis by (simp add: surface_inv_def)
  next
    case (Some h)
    with assms obtain h' where "shadowHost s' = Some h'" "ident h' = ident h" by auto
    with Some assms a show ?thesis by (simp add: surface_inv_def)
  qed
qed

lemma new_manager_inv: "surface_inv (new_manager hp vids fs sy)"
  by (simp add: surface_inv_def new_manager_def attached_nodes_def)

lemma updateSettings_inv:
  assumes "surface_inv s"
  shows "surface_inv (updateSettings st s)"
  using assms
  by (rule surface_inv_cong)
     (simp_all add: updateSettings_def Let_def updateSubtitleContent_frame
                    updateSubtitlePosition_frame applyStyles_frame)

lemma loadSettings_keeps_settings:
  "settings s \<noteq> None \<Longrightarrow> settings (loadSettings rd s) \<noteq> None"
  by (simp add: loadSettings_def split: storage_read.splits)

lemma init_found:
  assumes "findTargetVideo target s = Some v"
  shows "init target subs rd s
           = (True, snd (attachEventListeners (snd (addSubtitleElement
                ((loadSettings rd (s\<lparr>subtitles := subs\<rparr>))\<lparr>video := Some v\<rparr>)))))"
  using assms by (simp add: init_def Let_def findTargetVideo_in_init)

lemma init_True_found:
  "init target subs rd s = (True, s') \<Longrightarrow> \<exists>v. findTargetVideo target s = Some v"
  by (cases "findTargetVideo target s") (simp_all add: init_not_found)

lemma init_inv:
  assumes "surface_inv s"
  shows "surface_inv (snd (init target subs rd s))"
proof (cases "findTargetVideo target s")
  case None
  show ?thesis
    using assms
    by (rule surface_inv_cong)
       (simp_all add: init_not_found[OF None] loadSettings_frame loadSettings_keeps_settings)
next
  case (Some v)
  let ?s3 = "(loadSettings rd (s\<lparr>subtitles := subs\<rparr>))\<lparr>video := Some v\<rparr>"
  have "surface_inv ?s3"
    using assms
    by (rule surface_inv_cong) (simp_all add: loadSettings_frame loadSettings_keeps_settings)
  then have "surface_inv (snd (addSubtitleElement ?s3))" by (rule addSubtitleElement_inv)
  then show ?thesis
    by (rule surface_inv_cong) (simp_all add: init_found[OF Some] attachEventListeners_frame)
qed

subsection \<open>Fullscreen changes and re-initialisation\<close>






text \<open>
  Claim C4.  Teardown releases mount node, boundary and content node and detaches the
  mount node.  A successful \<open>init\<close> on a state that has a surface leaves exactly one
  attached node, a new mount node; the old one is detached, and the content shows what the
  new caption list gives at the adjusted time.
\<close>
theorem reinit_replaces_surface:
  "shadowHost (removeSubtitleElement s) = None
   \<and> shadowRoot (removeSubtitleElement s) = None
   \<and> subtitleElement (removeSubtitleElement s) = None
   \<and> (\<forall>h. shadowHost s = Some h \<longrightarrow> parentNode (removeSubtitleElement s) (ident h) = None)
   \<and> (surface_inv s \<longrightarrow> attached_nodes (removeSubtitleElement s) = [])
   \<and> (\<forall>h0 s'. surface_inv s \<and> shadowHost s = Some h0 \<and> init target subs rd s = (True, s') \<longrightarrow>
          map_option ident (shadowHost s') = Some (fresh s)
        \<and> fresh s \<noteq> ident h0
        \<and> attached_nodes s' = [fresh s]
        \<and> parentNode s' (ident h0) = None
        \<and> parentNode s' (fresh s) = Some (target_container s)
        \<and> shadowRoot s'
            = Some \<lparr>sr_host = fresh s, sr_mode = ''open'', sr_children = [Suc (fresh s)]\<rparr>
        \<and> map_option ident (subtitleElement s') = Some (Suc (fresh s))
        \<and> subtitles s' = subs
        \<and> video s' = findTargetVideo target s
        \<and> heap s' = heap s
        \<and> settings s' = settings (loadSettings rd s)
        \<and> (\<forall>v. video s' = Some v \<longrightarrow>
              content_text s'
                = Some (case find (covers (adjustedTime s' v)) subs of
                          Some c \<Rightarrow> sub_text c | None \<Rightarrow> [])))"
proof (intro conjI allI impI)
  show "shadowHost (removeSubtitleElement s) = None"
    and "shadowRoot (removeSubtitleElement s) = None"
    and "subtitleElement (removeSubtitleElement s) = None"
    by (simp_all add: removeSubtitleElement_fields)
  show "parentNode (removeSubtitleElement s) (ident h) = None" if "shadowHost s = Some h" for h
    using that by (simp add: removeSubtitleElement_fields)
  show "attached_nodes (removeSubtitleElement s) = []" if "surface_inv s"
    using that by (rule removeSubtitleElement_detaches)
next
  fix h0 s'
  assume a: "surface_inv s \<and> shadowHost s = Some h0 \<and> init target subs rd s = (True, s')"
  then have inv: "surface_inv s" and h0: "shadowHost s = Some h0"
    and i: "init target subs rd s = (True, s')" by simp_all
  from init_True_found[OF i] obtain v where v: "findTargetVideo target s = Some v" ..
  let ?s3 = "(loadSettings rd (s\<lparr>subtitles := subs\<rparr>))\<lparr>video := Some v\<rparr>"
  from inv h0 have "settings s \<noteq> None" by (simp add: surface_inv_def)
  then have "settings ?s3 \<noteq> None" by (simp add: loadSettings_keeps_settings)
  then obtain st where st: "settings ?s3 = Some st" by auto
  have v3: "video ?s3 = Some v" by simp
  have inv3: "surface_inv ?s3"
    using inv
    by (rule surface_inv_cong)
       (simp_all add: loadSettings_frame loadSettings_keeps_settings)
  have s': "s' = snd (attachEventListeners (snd (addSubtitleElement ?s3)))"
    using i by (simp add: init_found[OF v])
  have f3: "fresh ?s3 = fresh s" by (simp add: loadSettings_frame)
  have t3: "target_container ?s3 = target_container s"
    by (simp add: target_container_def loadSettings_frame)
  have h3: "shadowHost ?s3 = Some h0" using h0 by (simp add: loadSettings_frame)
  note n = addSubtitleElement_nodes[OF v3 st] and k = addSubtitleElement_keeps[OF v3 st]
  show "map_option ident (shadowHost s') = Some (fresh s)"
    using n(1) f3 by (simp add: s' attachEventListeners_frame)
  show ne: "fresh s \<noteq> ident h0"
    using surface_inv_host_bound[OF inv h0] by simp
  show "attached_nodes s' = [fresh s]"
    using addSubtitleElement_attached[OF inv3 v3 st] f3
    by (simp add: s' attached_nodes_def attachEventListeners_frame)
  show "parentNode s' (ident h0) = None"
    using ne h3 f3 surface_inv_host_bound[OF inv h0]
    by (simp add: s' attachEventListeners_frame addSubtitleElement_parents[OF v3 st])
  show "parentNode s' (fresh s) = Some (target_container s)"
    using f3 t3 by (simp add: s' attachEventListeners_frame addSubtitleElement_parents[OF v3 st])
  show "shadowRoot s'
          = Some \<lparr>sr_host = fresh s, sr_mode = ''open'', sr_children = [Suc (fresh s)]\<rparr>"
    using n(3) f3 by (simp add: s' attachEventListeners_frame)
  show "map_option ident (subtitleElement s') = Some (Suc (fresh s))"
    using n(2) f3 by (simp add: s' attachEventListeners_frame)
  show "subtitles s' = subs"
    using k(3) by (simp add: s' attachEventListeners_frame loadSettings_frame)
  show vs: "video s' = findTargetVideo target s"
    using k(2) v by (simp add: s' attachEventListeners_frame)
  show "heap s' = heap s"
    using k(4) by (simp add: s' attachEventListeners_frame loadSettings_frame)
  show "settings s' = settings (loadSettings rd s)"
    using k(1) by (simp add: s' attachEventListeners_frame loadSettings_def split: storage_read.splits)
  show "content_text s'
          = Some (case find (covers (adjustedTime s' w)) subs of
                    Some c \<Rightarrow> sub_text c | None \<Rightarrow> [])" if w: "video s' = Some w" for w
  proof -
    from w vs v have wv: "w = v" by simp
    have "adjustedTime s' v = adjustedTime ?s3 v"
      by (rule adjustedTime_cong) (simp_all add: s' attachEventListeners_frame k)
    moreover have "content_text s' = content_text (snd (addSubtitleElement ?s3))"
      by (simp add: s' content_text_def attachEventListeners_frame)
    moreover have "subtitles ?s3 = subs" by (simp add: loadSettings_frame)
    ultimately show ?thesis
      using addSubtitleElement_text[OF v3 st] wv by simp
  qed
qed

subsection \<open>Target resolution\<close>

lemma array_get_first: "array_get xs (Num 0) = (case xs of [] \<Rightarrow> None | x # _ \<Rightarrow> Some x)"
  by (simp add: array_get_def split: list.splits)

text \<open>
  Claim C2, amended.  A non-empty \<open>videoId\<close> selects the first video with that id,
  whatever \<open>videoIndex\<close> is; with \<open>videoId\<close> absent or empty, \<open>videoIndex\<close> selects
  by position; with neither, the first video is selected.
\<close>
theorem findTargetVideo_precedence:
  "(\<forall>vid. videoId target = Some vid \<and> vid \<noteq> [] \<longrightarrow>
        findTargetVideo target s = find (\<lambda>v. v_id (heap s v) = vid) (doc_videos s)
      \<and> (\<forall>i. findTargetVideo (target\<lparr>videoIndex := i\<rparr>) s = findTargetVideo target s))
   \<and> (\<forall>i. (videoId target = None \<or> videoId target = Some []) \<and> videoIndex target = Some i \<longrightarrow>
        findTargetVideo target s = array_get (doc_videos s) i)
   \<and> ((videoId target = None \<or> videoId target = Some []) \<and> videoIndex target = None \<longrightarrow>
        findTargetVideo target s = (case doc_videos s of [] \<Rightarrow> None | v # _ \<Rightarrow> Some v))"
  by (auto simp: findTargetVideo_def Let_def array_get_first)

text \<open>
  Claim C2, amended, on the example: the three cases of the precedence rule.
\<close>

theorem findTargetVideo_precedence_witness:
  "findTargetVideo ex_target ex_page = Some 11
   \<and> findTargetVideo (ex_target\<lparr>videoIndex := Some (Num 0)\<rparr>) ex_page = Some 11
   \<and> findTargetVideo (ex_target\<lparr>videoId := None\<rparr>) ex_page = Some 12
   \<and> findTargetVideo (ex_target\<lparr>videoId := None, videoIndex := None\<rparr>) ex_page = Some 10"
  using findTargetVideo_precedence[of ex_target ex_page]
        findTargetVideo_precedence[of "ex_target\<lparr>videoId := None\<rparr>" ex_page]
        findTargetVideo_precedence[of "ex_target\<lparr>videoId := None, videoIndex := None\<rparr>" ex_page]
  by (simp add: ex_target_def ex_page_def new_manager_def ex_heap_def array_get_def
                findTargetVideo_def)

text \<open>
  Claim C2 as stated fails for the empty string: the target's \<open>videoId\<close> is present and
  equals the id of the second video, yet the video at \<open>videoIndex\<close> is returned.
\<close>
theorem empty_videoId_falls_through:
  "videoId cx_target = Some [] \<and> videoIndex cx_target = Some (Num 0)
   \<and> doc_videos cx_page = [10, 11]
   \<and> v_id (heap cx_page 10) = ''a'' \<and> v_id (heap cx_page 11) = []
   \<and> precedence_as_stated cx_target cx_page = Some 11
   \<and> findTargetVideo cx_target cx_page = Some 10"
  by (simp add: cx_target_def cx_page_def new_manager_def cx_heap_def precedence_as_stated_def
                findTargetVideo_def array_get_def)

text \<open>
  Claim C10, amended.  A non-empty \<open>videoId\<close> that matches no video's id resolves to no
  video, whatever \<open>videoIndex\<close> is, and \<open>init\<close> returns false.
\<close>
theorem unmatched_videoId_no_fallback:
  assumes "videoId target = Some vid" and "vid \<noteq> []"
    and "\<forall>v \<in> set (doc_videos s). v_id (heap s v) \<noteq> vid"
  shows "findTargetVideo target s = None \<and> fst (init target subs rd s) = False"
proof -
  have "findTargetVideo target s = None"
    using assms by (simp add: findTargetVideo_def find_None_iff)
  then show ?thesis by (simp add: init_not_found)
qed

text \<open>
  Claim C10, amended, on the example: the id \<open>zz\<close> matches no video.
\<close>

theorem unmatched_videoId_no_fallback_witness:
  "videoId (ex_target\<lparr>videoId := Some ''zz''\<rparr>) = Some ''zz'' \<and> ''zz'' \<noteq> []
   \<and> ''zz'' \<notin> (\<lambda>v. v_id (heap ex_page v)) ` set (doc_videos ex_page)
   \<and> videoIndex (ex_target\<lparr>videoId := Some ''zz''\<rparr>) = Some (Num 2)
   \<and> findTargetVideo (ex_target\<lparr>videoId := Some ''zz''\<rparr>) ex_page = None
   \<and> fst (init (ex_target\<lparr>videoId := Some ''zz''\<rparr>) ex_subs ReadAbsent ex_page) = False"
proof -
  have a: "videoId (ex_target\<lparr>videoId := Some ''zz''\<rparr>) = Some ''zz''" by simp
  have b: "''zz'' \<noteq> []" by simp
  have c: "\<forall>v \<in> set (doc_videos ex_page). v_id (heap ex_page v) \<noteq> ''zz''"
    by (simp add: ex_page_def new_manager_def ex_heap_def)
  have d: "videoIndex (ex_target\<lparr>videoId := Some ''zz''\<rparr>) = Some (Num 2)"
    by (simp add: ex_target_def)
  from a b c d unmatched_videoId_no_fallback[OF a b c, of ex_subs ReadAbsent]
  show ?thesis by auto
qed

text \<open>
  Claim C10 as stated fails for the empty string: no video has the empty id, yet the
  target resolves to the video at \<open>videoIndex\<close> and \<open>init\<close> succeeds.
\<close>
theorem empty_videoId_unmatched_still_resolves:
  "videoId cx_target = Some [] \<and> doc_videos cx_single_page = [10]
   \<and> v_id (heap cx_single_page 10) = ''a''
   \<and> findTargetVideo cx_target cx_single_page = Some 10
   \<and> fst (init cx_target [] ReadAbsent cx_single_page) = True"
  by (simp add: cx_target_def cx_single_page_def new_manager_def cx_heap_def
                findTargetVideo_def array_get_def init_def Let_def loadSettings_def)

section \<open>The example page\<close>

lemma ex_target_found: "findTargetVideo ex_target ex_page = Some 11"
  by (simp add: findTargetVideo_def ex_target_def ex_page_def new_manager_def ex_heap_def)

lemma ex_found_fields:
  "video ex_found = Some 11"
  "settings ex_found = Some default_settings"
  "subtitles ex_found = ex_subs"
  "heap ex_found = ex_heap"
  "fresh ex_found = 0"
  "shadowHost ex_found = None"
  "fullscreenElement ex_found = None"
  "parentNode ex_found = (\<lambda>_. None)"
  "doc_videos ex_found = [10, 11, 12]"
  "scrollY ex_found = Num 50"
  by (simp_all add: ex_found_def loadSettings_def ex_page_def new_manager_def)

lemma ex_ready_unfold:
  "ex_ready = snd (attachEventListeners (snd (addSubtitleElement ex_found)))"
  by (simp add: ex_ready_def ex_found_def init_found[OF ex_target_found])

lemma ex_ready_fields:
  "subtitles ex_ready = ex_subs"
  "video ex_ready = Some 11"
  "settings ex_ready = Some default_settings"
  "heap ex_ready = ex_heap"
  "fresh ex_ready = 2"
  "isFullscreen ex_ready = False"
  "fullscreenElement ex_ready = None"
  "shadowRoot ex_ready = Some \<lparr>sr_host = 0, sr_mode = ''open'', sr_children = [1]\<rparr>"
  "map_option ident (shadowHost ex_ready) = Some 0"
  "map_option ident (subtitleElement ex_ready) = Some 1"
  "doc_videos ex_ready = [10, 11, 12]"
  "scrollY ex_ready = Num 50"
  by (simp_all add: ex_ready_unfold attachEventListeners_frame
        addSubtitleElement_keeps[OF ex_found_fields(1,2)]
        addSubtitleElement_nodes[OF ex_found_fields(1,2)] ex_found_fields)


lemma ex_ready_inv: "surface_inv ex_ready"
  unfolding ex_ready_def ex_page_def by (rule init_inv) (rule new_manager_inv)

lemma ex_ready_time: "adjustedTime ex_ready 11 = Num 2"
  by (simp add: adjustedTime_def ex_ready_fields default_settings_def ex_heap_def)

lemma ex_ready_rect:
  "boundingRect (heap ex_ready 11)
     = Some \<lparr>rect_left = Num 100, rect_bottom = Num 400, rect_width = Num 640\<rparr>"
  by (simp add: ex_ready_fields ex_heap_def)


lemma ex_ready_nodes:
  "\<exists>h. shadowHost ex_ready = Some h \<and> ident h = 0"
  "\<exists>e. subtitleElement ex_ready = Some e \<and> ident e = 1"
  using ex_ready_fields(9,10) by auto

lemma ex_ready_resolves:
  "findTargetVideo ex_target ex_ready = Some 11"
  "findTargetVideo ex_missing_target ex_ready = None"
  by (simp_all add: findTargetVideo_def ex_target_def ex_missing_target_def ex_ready_fields
                    ex_heap_def)

lemma ex_shifted_fields:
  "settings ex_shifted = Some (default_settings\<lparr>syncOffset := JNumber (Num (3 / 2))\<rparr>)"
  "video ex_shifted = Some 11"
  "subtitles ex_shifted = ex_subs"
  "heap ex_shifted = ex_heap"
  "subtitleElement ex_shifted = subtitleElement ex_ready"
  by (simp_all add: ex_shifted_def with_syncOffset_def ex_ready_fields)

text \<open>
  Claim C1 on the example.  At time 2 with offset 0 both captions cover and the first is
  shown; with offset 1.5 the adjusted time is 3.5 and the second is shown; a NaN offset and
  missing settings leave the time at 2; with no captions the node is cleared and hidden.
\<close>

theorem updateSubtitleContent_selects_first_cover_witness:
  "video ex_ready = Some 11 \<and> subtitles ex_ready = ex_subs
   \<and> currentTime (heap ex_ready 11) = Num 2
   \<and> adjustedTime ex_ready 11 = Num 2
   \<and> covers (Num 2) (ex_subs ! 0) \<and> covers (Num 2) (ex_subs ! 1)
   \<and> (\<exists>e'. updateSubtitleContent ex_ready = (True, ex_ready\<lparr>subtitleElement := Some e'\<rparr>)
          \<and> textContent e' = ''Hi''
          \<and> get_prop (style e') ''display'' = Some (Lit ''block''))
   \<and> adjustedTime ex_shifted 11 = Num (7 / 2)
   \<and> \<not> covers (Num (7 / 2)) (ex_subs ! 0) \<and> covers (Num (7 / 2)) (ex_subs ! 1)
   \<and> (\<exists>e'. updateSubtitleContent ex_shifted = (True, ex_shifted\<lparr>subtitleElement := Some e'\<rparr>)
          \<and> textContent e' = ''Bye''
          \<and> get_prop (style e') ''display'' = Some (Lit ''block''))
   \<and> adjustedTime (with_syncOffset (JNumber NaN) default_settings ex_ready) 11 = Num 2
   \<and> adjustedTime (ex_ready\<lparr>settings := None\<rparr>) 11 = Num 2
   \<and> (\<exists>e'. updateSubtitleContent (ex_ready\<lparr>subtitles := []\<rparr>)
                = (False, ex_ready\<lparr>subtitles := [], subtitleElement := Some e'\<rparr>)
          \<and> textContent e' = []
          \<and> get_prop (style e') ''display'' = Some (Lit ''none''))"
proof -
  from ex_ready_nodes(2) obtain e where e: "subtitleElement ex_ready = Some e" by auto
  have v: "video ex_ready = Some 11" by (rule ex_ready_fields)
  have ct: "currentTime (heap ex_ready 11) = Num 2"
    by (simp add: ex_ready_fields ex_heap_def)
  have c: "covers (Num 2) (ex_subs ! 0)" "covers (Num 2) (ex_subs ! 1)"
    "\<not> covers (Num (7 / 2)) (ex_subs ! 0)" "covers (Num (7 / 2)) (ex_subs ! 1)"
    by (simp_all add: covers_def ex_subs_def)
  note w = updateSubtitleContent_selects_first_cover[OF e v]
  have "settings ex_ready = Some default_settings
          \<and> syncOffset default_settings = JNumber (Num 0)
          \<and> currentTime (heap ex_ready 11) = Num 2"
    by (simp add: ex_ready_fields default_settings_def ex_heap_def)
  from w[THEN conjunct2, THEN conjunct1, THEN spec, THEN spec, THEN spec, THEN mp, OF this]
  have t0: "adjustedTime ex_ready 11 = Num 2" by simp
  have "0 < length (subtitles ex_ready) \<and> covers (adjustedTime ex_ready 11) (subtitles ex_ready ! 0)
          \<and> (\<forall>j<0. \<not> covers (adjustedTime ex_ready 11) (subtitles ex_ready ! j))"
    using c(1) by (simp add: t0 ex_ready_fields) (simp add: ex_subs_def)
  from w[THEN conjunct2, THEN conjunct2, THEN conjunct2, THEN conjunct2, THEN conjunct1,
         THEN spec, THEN mp, OF this]
  have a: "\<exists>e'. updateSubtitleContent ex_ready = (True, ex_ready\<lparr>subtitleElement := Some e'\<rparr>)
          \<and> textContent e' = ''Hi''
          \<and> get_prop (style e') ''display'' = Some (Lit ''block'')"
    by (auto simp: ex_ready_fields ex_subs_def)
  have es: "subtitleElement ex_shifted = Some e" using e by (simp add: ex_shifted_fields)
  have vs: "video ex_shifted = Some 11" by (rule ex_shifted_fields)
  note ws = updateSubtitleContent_selects_first_cover[OF es vs]
  have "settings ex_shifted = Some (default_settings\<lparr>syncOffset := JNumber (Num (3 / 2))\<rparr>)
          \<and> syncOffset (default_settings\<lparr>syncOffset := JNumber (Num (3 / 2))\<rparr>)
               = JNumber (Num (3 / 2))
          \<and> currentTime (heap ex_shifted 11) = Num 2"
    by (simp add: ex_shifted_fields ex_heap_def)
  from ws[THEN conjunct2, THEN conjunct1, THEN spec, THEN spec, THEN spec, THEN mp, OF this]
  have t1: "adjustedTime ex_shifted 11 = Num (7 / 2)" by simp
  have "1 < length (subtitles ex_shifted)
          \<and> covers (adjustedTime ex_shifted 11) (subtitles ex_shifted ! 1)
          \<and> (\<forall>j<1. \<not> covers (adjustedTime ex_shifted 11) (subtitles ex_shifted ! j))"
    using c(3,4) by (simp add: t1 ex_shifted_fields) (simp add: ex_subs_def)
  from ws[THEN conjunct2, THEN conjunct2, THEN conjunct2, THEN conjunct2, THEN conjunct1,
          THEN spec, THEN mp, OF this]
  have b: "\<exists>e'. updateSubtitleContent ex_shifted = (True, ex_shifted\<lparr>subtitleElement := Some e'\<rparr>)
          \<and> textContent e' = ''Bye''
          \<and> get_prop (style e') ''display'' = Some (Lit ''block'')"
    by (auto simp: ex_shifted_fields ex_subs_def)
  let ?n = "with_syncOffset (JNumber NaN) default_settings ex_ready"
  have en: "subtitleElement ?n = Some e" and vn: "video ?n = Some 11"
    using e v by (simp_all add: with_syncOffset_def)
  have "settings ?n = Some (default_settings\<lparr>syncOffset := JNumber NaN\<rparr>)
          \<and> \<not> isValidTimeOffset (syncOffset (default_settings\<lparr>syncOffset := JNumber NaN\<rparr>))"
    by (simp add: with_syncOffset_def)
  from updateSubtitleContent_selects_first_cover[OF en vn, THEN conjunct2, THEN conjunct2,
         THEN conjunct1, THEN spec, THEN mp, OF this]
  have t2: "adjustedTime ?n 11 = Num 2"
    by (simp add: with_syncOffset_def ex_ready_fields ex_heap_def)
  have eu: "subtitleElement (ex_ready\<lparr>settings := None\<rparr>) = Some e"
    and vu: "video (ex_ready\<lparr>settings := None\<rparr>) = Some 11"
    using e v by simp_all
  have "settings (ex_ready\<lparr>settings := None\<rparr>) = None" by simp
  from updateSubtitleContent_selects_first_cover[OF eu vu, THEN conjunct2, THEN conjunct2,
         THEN conjunct2, THEN conjunct1, THEN mp, OF this]
  have t3: "adjustedTime (ex_ready\<lparr>settings := None\<rparr>) 11 = Num 2"
    by (simp add: ex_ready_fields ex_heap_def)
  have e2: "subtitleElement (ex_ready\<lparr>subtitles := []\<rparr>) = Some e" using e by simp
  have v2: "video (ex_ready\<lparr>subtitles := []\<rparr>) = Some 11" using v by simp
  from updateSubtitleContent_selects_first_cover[OF e2 v2, THEN conjunct2, THEN conjunct2,
         THEN conjunct2, THEN conjunct2, THEN conjunct2]
  have d: "\<exists>e'. updateSubtitleContent (ex_ready\<lparr>subtitles := []\<rparr>)
                = (False, ex_ready\<lparr>subtitles := [], subtitleElement := Some e'\<rparr>)
          \<and> textContent e' = []
          \<and> get_prop (style e') ''display'' = Some (Lit ''none'')"
    by auto
  from a b c d v ct t0 t1 t2 t3 show ?thesis by (simp add: ex_ready_fields)
qed

text \<open>
  Claim C3 on the example: a target that matches no video, after a surface was built.
\<close>

theorem init_without_video_builds_nothing_witness:
  "findTargetVideo ex_missing_target ex_ready = None
   \<and> map_option ident (shadowHost ex_ready) = Some 0
   \<and> fst (init ex_missing_target ex_later_subs ReadAbsent ex_ready) = False
   \<and> last (console (snd (init ex_missing_target ex_later_subs ReadAbsent ex_ready)))
       = ''Target video not found''
   \<and> shadowHost (snd (init ex_missing_target ex_later_subs ReadAbsent ex_ready))
       = shadowHost ex_ready
   \<and> parentNode (snd (init ex_missing_target ex_later_subs ReadAbsent ex_ready))
       = parentNode ex_ready
   \<and> fresh (snd (init ex_missing_target ex_later_subs ReadAbsent ex_ready)) = 2
   \<and> listeners (snd (init ex_missing_target ex_later_subs ReadAbsent ex_ready))
       = listeners ex_ready"
  using init_without_video_builds_nothing[OF ex_ready_resolves(2), of ex_later_subs ReadAbsent]
  by (simp add: ex_ready_resolves ex_ready_fields)

text \<open>
  Claim C5 on the example: NaN and a string as sync offset.
\<close>

theorem invalid_syncOffset_counts_as_zero_witness:
  "\<not> isValidTimeOffset (JNumber NaN) \<and> \<not> isValidTimeOffset (JString ''1.5'')
   \<and> adjustedTime (with_syncOffset (JNumber NaN) default_settings ex_ready) 11 = Num 2
   \<and> adjustedTime (with_syncOffset (JNumber (Num 0)) default_settings ex_ready) 11 = Num 2
   \<and> fst (updateSubtitleContent (with_syncOffset (JNumber NaN) default_settings ex_ready))
       = fst (updateSubtitleContent (with_syncOffset (JNumber (Num 0)) default_settings ex_ready))
   \<and> subtitleElement (snd (updateSubtitleContent
         (with_syncOffset (JString ''1.5'') default_settings ex_ready)))
       = subtitleElement (snd (updateSubtitleContent
         (with_syncOffset (JNumber (Num 0)) default_settings ex_ready)))"
proof -
  have n: "\<not> isValidTimeOffset (JNumber NaN)" and t: "\<not> isValidTimeOffset (JString ''1.5'')"
    by simp_all
  note w = invalid_syncOffset_counts_as_zero[of default_settings ex_ready 11, THEN conjunct2]
  from w[THEN spec, of "JNumber NaN"] w[THEN spec, of "JString ''1.5''"] n t
  show ?thesis by (auto simp: ex_ready_fields ex_heap_def)
qed

text \<open>
  Claim C6 on the example: box bottom 400, offset 60, scroll 50, left 100, width 640; and a
  video whose box cannot be read.
\<close>

theorem updateSubtitlePosition_places_mount_witness:
  "map_option ident (shadowHost ex_ready) = Some 0 \<and> video ex_ready = Some 11
   \<and> settings ex_ready = Some default_settings
   \<and> (\<exists>h'. updateSubtitlePosition ex_ready = (True, ex_ready\<lparr>shadowHost := Some h'\<rparr>)
          \<and> get_prop (style h') ''top'' = Some (Px (Num 390))
          \<and> get_prop (style h') ''left'' = Some (Px (Num 420)))
   \<and> boundingRect (heap (ex_ready\<lparr>heap := cx_heap\<rparr>) 11) = None
   \<and> fst (updateSubtitlePosition (ex_ready\<lparr>heap := cx_heap\<rparr>)) = False
   \<and> shadowHost (snd (updateSubtitlePosition (ex_ready\<lparr>heap := cx_heap\<rparr>)))
       = shadowHost ex_ready"
proof -
  from ex_ready_nodes(1) obtain h where h: "shadowHost ex_ready = Some h" by auto
  have v: "video ex_ready = Some 11" and st: "settings ex_ready = Some default_settings"
    by (simp_all add: ex_ready_fields)
  have h2: "shadowHost (ex_ready\<lparr>heap := cx_heap\<rparr>) = Some h" using h by simp
  have v2: "video (ex_ready\<lparr>heap := cx_heap\<rparr>) = Some 11" using v by simp
  have st2: "settings (ex_ready\<lparr>heap := cx_heap\<rparr>) = Some default_settings" using st by simp
  have r2: "boundingRect (heap (ex_ready\<lparr>heap := cx_heap\<rparr>) 11) = None"
    by (simp add: cx_heap_def)
  from updateSubtitlePosition_places_mount[OF h v st, THEN conjunct1, THEN spec, THEN mp,
         OF ex_ready_rect]
  have a: "\<exists>h'. updateSubtitlePosition ex_ready = (True, ex_ready\<lparr>shadowHost := Some h'\<rparr>)
          \<and> get_prop (style h') ''top'' = Some (Px (Num 390))
          \<and> get_prop (style h') ''left'' = Some (Px (Num 420))"
    by (simp add: default_settings_def js_sub_def ex_ready_fields)
  from updateSubtitlePosition_places_mount[OF h2 v2 st2, THEN conjunct2, THEN mp, OF r2]
  have b: "fst (updateSubtitlePosition (ex_ready\<lparr>heap := cx_heap\<rparr>)) = False
           \<and> shadowHost (snd (updateSubtitlePosition (ex_ready\<lparr>heap := cx_heap\<rparr>)))
               = shadowHost ex_ready"
    using h by simp
  from a b r2 v st show ?thesis by (simp add: ex_ready_fields)
qed

text \<open>
  Claim C8 on the example: default settings, and settings with the background on and the
  shadow off.
\<close>

theorem applyStyles_derives_presentation_witness:
  "map_option ident (subtitleElement ex_ready) = Some 1
   \<and> content_prop (applyStyles ex_ready) ''background-color'' = Some (Lit ''transparent'')
   \<and> content_prop (applyStyles ex_ready) ''text-shadow'' = Some (Lit ''2px 2px 4px #000000'')
   \<and> content_prop (updateSettings ex_custom_settings ex_ready) ''background-color''
       = Some (Lit ''#112233'')
   \<and> content_prop (updateSettings ex_custom_settings ex_ready) ''text-shadow''
       = Some (Lit ''none'')
   \<and> content_prop (updateSettings (ex_custom_settings\<lparr>background := False\<rparr>) ex_ready)
        ''background-color'' = Some (Lit ''transparent'')
   \<and> map_option style (subtitleElement (applyStyles (ex_ready\<lparr>scrollY := Num 0\<rparr>)))
       = map_option style (subtitleElement (applyStyles ex_ready))"
proof -
  from ex_ready_nodes(2) obtain e where e: "subtitleElement ex_ready = Some e" by auto
  note w = applyStyles_derives_presentation[OF e]
  have p: "subtitleElement (ex_ready\<lparr>scrollY := Num 0\<rparr>) = Some e
           \<and> settings (ex_ready\<lparr>scrollY := Num 0\<rparr>) = Some default_settings"
    using e by (simp add: ex_ready_fields)
  from w[THEN conjunct1, THEN spec, of default_settings] p
  have q: "map_option style (subtitleElement (applyStyles (ex_ready\<lparr>scrollY := Num 0\<rparr>)))
             = map_option style (subtitleElement (applyStyles ex_ready))"
    using ex_ready_fields(3) by blast
  from w[THEN conjunct1, THEN spec, of default_settings]
       w[THEN conjunct2, THEN spec, of ex_custom_settings]
       w[THEN conjunct2, THEN spec, of "ex_custom_settings\<lparr>background := False\<rparr>"]
       q
  show ?thesis
    by (simp add: ex_ready_fields default_settings_def ex_custom_settings_def)
qed

text \<open>
  Claim C9 on the example: a first \<open>init\<close> whose settings read throws.
\<close>

theorem settings_load_failure_leaves_no_ops_witness:
  "settings ex_page = None
   \<and> settings (loadSettings ReadThrows ex_page) = None
   \<and> console (loadSettings ReadThrows ex_page) = [''Error loading subtitle settings:'']
   \<and> fst (init ex_target ex_subs ReadThrows ex_page) = True
   \<and> settings (snd (init ex_target ex_subs ReadThrows ex_page)) = None
   \<and> shadowHost (snd (init ex_target ex_subs ReadThrows ex_page)) = None
   \<and> video (snd (init ex_target ex_subs ReadThrows ex_page)) = Some 11
   \<and> length (listeners (snd (init ex_target ex_subs ReadThrows ex_page))) = 9
   \<and> addSubtitleElement ex_page = (False, ex_page)
   \<and> applyStyles ex_page = ex_page
   \<and> updateSubtitlePosition ex_page = (False, ex_page)
   \<and> settings (updateSettings default_settings ex_page) = Some default_settings"
proof -
  have n: "settings ex_page = None" "console ex_page = []" "shadowHost ex_page = None"
    "listeners ex_page = []"
    by (simp_all add: ex_page_def new_manager_def)
  from settings_load_failure_leaves_no_ops[of ex_page ex_target ex_subs default_settings] n
  show ?thesis by (simp add: ex_target_found)
qed

lemma ex_ready_text: "content_text ex_ready = Some ''Hi''"
proof -
  have "content_text ex_ready = content_text (snd (addSubtitleElement ex_found))"
    by (simp add: ex_ready_unfold content_text_def attachEventListeners_frame)
  also have "\<dots> = Some (case find (covers (adjustedTime ex_found 11)) (subtitles ex_found) of
                         Some c \<Rightarrow> sub_text c | None \<Rightarrow> [])"
    by (rule addSubtitleElement_text[OF ex_found_fields(1,2)])
  also have "adjustedTime ex_found 11 = Num 2"
    by (simp add: adjustedTime_def ex_found_fields default_settings_def ex_heap_def)
  finally show ?thesis
    by (simp add: ex_found_fields ex_subs_def covers_def)
qed

lemma ex_ready_attached: "attached_nodes ex_ready = [0]"
  using ex_ready_inv ex_ready_nodes(1) by (auto simp: surface_inv_def)

text \<open>
  Claim C4 on the example: a second \<open>init\<close> with another caption list.
\<close>

theorem reinit_replaces_surface_witness:
  "surface_inv ex_ready \<and> map_option ident (shadowHost ex_ready) = Some 0
   \<and> attached_nodes ex_ready = [0] \<and> content_text ex_ready = Some ''Hi''
   \<and> fst (init ex_target ex_later_subs ReadThrows ex_ready) = True
   \<and> map_option ident (shadowHost (snd (init ex_target ex_later_subs ReadThrows ex_ready))) = Some 2
   \<and> attached_nodes (snd (init ex_target ex_later_subs ReadThrows ex_ready)) = [2]
   \<and> parentNode (snd (init ex_target ex_later_subs ReadThrows ex_ready)) 0 = None
   \<and> parentNode (snd (init ex_target ex_later_subs ReadThrows ex_ready)) 2 = Some DocBody
   \<and> content_text (snd (init ex_target ex_later_subs ReadThrows ex_ready)) = Some ''Later''
   \<and> attached_nodes (removeSubtitleElement ex_ready) = []
   \<and> shadowHost (removeSubtitleElement ex_ready) = None"
proof -
  let ?s' = "snd (init ex_target ex_later_subs ReadThrows ex_ready)"
  from ex_ready_nodes(1) obtain h where h: "shadowHost ex_ready = Some h" "ident h = 0" by auto
  have i: "init ex_target ex_later_subs ReadThrows ex_ready = (True, ?s')"
    by (simp add: init_found[OF ex_ready_resolves(1)])
  note w = reinit_replaces_surface[of ex_ready ex_target ex_later_subs ReadThrows]
  from w have t: "attached_nodes (removeSubtitleElement ex_ready) = []"
      "shadowHost (removeSubtitleElement ex_ready) = None"
    using ex_ready_inv by simp_all
  from w have "\<forall>h0 s'. surface_inv ex_ready \<and> shadowHost ex_ready = Some h0
      \<and> init ex_target ex_later_subs ReadThrows ex_ready = (True, s') \<longrightarrow>
          map_option ident (shadowHost s') = Some (fresh ex_ready)
        \<and> fresh ex_ready \<noteq> ident h0
        \<and> attached_nodes s' = [fresh ex_ready]
        \<and> parentNode s' (ident h0) = None
        \<and> parentNode s' (fresh ex_ready) = Some (target_container ex_ready)
        \<and> shadowRoot s'
            = Some \<lparr>sr_host = fresh ex_ready, sr_mode = ''open'', sr_children = [Suc (fresh ex_ready)]\<rparr>
        \<and> map_option ident (subtitleElement s') = Some (Suc (fresh ex_ready))
        \<and> subtitles s' = ex_later_subs
        \<and> video s' = findTargetVideo ex_target ex_ready
        \<and> heap s' = heap ex_ready
        \<and> settings s' = settings (loadSettings ReadThrows ex_ready)
        \<and> (\<forall>v. video s' = Some v \<longrightarrow>
              content_text s'
                = Some (case find (covers (adjustedTime s' v)) ex_later_subs of
                          Some c \<Rightarrow> sub_text c | None \<Rightarrow> []))"
    by blast
  from this[THEN spec, THEN spec, THEN mp, of h ?s'] ex_ready_inv h(1) i
  have r: "map_option ident (shadowHost ?s') = Some (fresh ex_ready)"
      "attached_nodes ?s' = [fresh ex_ready]"
      "parentNode ?s' (ident h) = None"
      "parentNode ?s' (fresh ex_ready) = Some (target_container ex_ready)"
      "video ?s' = findTargetVideo ex_target ex_ready"
      "heap ?s' = heap ex_ready"
      "settings ?s' = settings (loadSettings ReadThrows ex_ready)"
      "\<forall>v. video ?s' = Some v \<longrightarrow>
              content_text ?s'
                = Some (case find (covers (adjustedTime ?s' v)) ex_later_subs of
                          Some c \<Rightarrow> sub_text c | None \<Rightarrow> [])"
    by simp_all
  have a: "adjustedTime ?s' 11 = Num 2"
    by (simp add: adjustedTime_def r(6,7) loadSettings_def ex_ready_fields
                  default_settings_def ex_heap_def)
  from r(8) r(5) have "content_text ?s'
      = Some (case find (covers (Num 2)) ex_later_subs of
                Some c \<Rightarrow> sub_text c | None \<Rightarrow> [])"
    by (simp add: ex_ready_resolves a)
  also have "\<dots> = Some ''Later''"
    by (simp add: ex_later_subs_def covers_def)
  finally have c: "content_text ?s' = Some ''Later''" .
  have f: "fst (init ex_target ex_later_subs ReadThrows ex_ready) = True"
    by (simp add: init_found[OF ex_ready_resolves(1)])
  from r(1-4) h(2) c t f show ?thesis
    by (simp add: ex_ready_inv ex_ready_fields ex_ready_attached ex_ready_text
                  target_container_def)
qed




end
